theory Spec2Isabelle
  imports Complex_Main "HOL-Library.Stream"
begin

section \<open>Language-pair registry\<close>

text \<open>
  The table \<^verbatim>\<open>SUPPORTED_LANGUAGE_PAIRS\<close> of \<^verbatim>\<open>extension.ts\<close>, entry by entry and
  in the order of the source. An entry \<^verbatim>\<open>{ from: a, to: b }\<close> is the pair \<open>(a, b)\<close>.
\<close>

definition SUPPORTED_LANGUAGE_PAIRS :: "(string \<times> string) list" where
  "SUPPORTED_LANGUAGE_PAIRS =
   [(''python'', ''javascript''), (''javascript'', ''python''),
    (''python'', ''java''), (''java'', ''python''),
    (''python'', ''typescript''), (''typescript'', ''python''),
    (''python'', ''c++''), (''c++'', ''python''),
    (''python'', ''c#''), (''c#'', ''python''),
    (''python'', ''ruby''), (''ruby'', ''python''),
    (''python'', ''go''), (''go'', ''python''),
    (''python'', ''php''), (''php'', ''python''),
    (''python'', ''perl''), (''perl'', ''python''),
    (''python'', ''fortran''), (''fortran'', ''python''),
    (''python'', ''pascal''), (''pascal'', ''python''),
    (''javascript'', ''java''), (''java'', ''javascript''),
    (''javascript'', ''typescript''), (''typescript'', ''javascript''),
    (''javascript'', ''c++''), (''c++'', ''javascript''),
    (''javascript'', ''c#''), (''c#'', ''javascript''),
    (''javascript'', ''dart''), (''dart'', ''javascript''),
    (''javascript'', ''html''), (''html'', ''javascript''),
    (''javascript'', ''php''), (''php'', ''javascript''),
    (''php'', ''typescript''), (''typescript'', ''php''),
    (''java'', ''c++''), (''c++'', ''java''),
    (''java'', ''c#''), (''c#'', ''java''),
    (''java'', ''go''), (''go'', ''java''),
    (''java'', ''kotlin''), (''kotlin'', ''java''),
    (''java'', ''scala''), (''scala'', ''java''),
    (''java'', ''cobol''), (''cobol'', ''java''),
    (''c++'', ''c''), (''c'', ''c++''),
    (''c++'', ''rust''), (''rust'', ''c++''),
    (''c++'', ''c#''), (''c#'', ''c++''),
    (''css'', ''scss''), (''scss'', ''css''),
    (''typescript'', ''dart''), (''dart'', ''typescript''),
    (''rust'', ''go''), (''go'', ''rust''),
    (''flask'', ''express''), (''express'', ''flask''),
    (''django'', ''spring''), (''spring'', ''django''),
    (''vue'', ''react''), (''react'', ''vue''),
    (''jsx'', ''tsx''), (''tsx'', ''jsx''),
    (''vue'', ''svelte''), (''svelte'', ''vue''),
    (''angular'', ''react''), (''react'', ''angular''),
    (''swift'', ''kotlin''), (''kotlin'', ''swift'')]"

text \<open>
  \<^verbatim>\<open>Array.from(new Set(xs))\<close>: the elements of \<open>xs\<close> in the order of their first
  occurrence, each once.
\<close>

definition array_from_set :: "'a list \<Rightarrow> 'a list" where
  "array_from_set xs = fold (\<lambda>x acc. if x \<in> set acc then acc else acc @ [x]) xs []"

definition getSupportedTargetLanguages :: "string \<Rightarrow> string list" where
  "getSupportedTargetLanguages sourceLang =
     array_from_set (map snd (filter (\<lambda>pair. fst pair = sourceLang) SUPPORTED_LANGUAGE_PAIRS))"

definition isLanguagePairSupported :: "string \<Rightarrow> string \<Rightarrow> bool" where
  "isLanguagePairSupported fromLang toLang =
     list_ex (\<lambda>pair. fst pair = fromLang \<and> snd pair = toLang) SUPPORTED_LANGUAGE_PAIRS"

section \<open>Strings\<close>

text \<open>
  A JavaScript string is modelled as a \<^typ>\<open>string\<close>, one \<^typ>\<open>char\<close> per code unit, so the
  model covers the code units \<open>0\<close> to \<open>255\<close>. \<open>isWhiteSpace\<close> holds of the characters
  in that range that \<^verbatim>\<open>String.prototype.trim\<close> and \<^verbatim>\<open>parseInt\<close> skip: tab, line feed,
  vertical tab, form feed, carriage return, space and no-break space.
\<close>

definition LF :: char where
  "LF = CHR 0x0A"

definition isWhiteSpace :: "char \<Rightarrow> bool" where
  "isWhiteSpace c \<longleftrightarrow> c \<in> {CHR 0x09, CHR 0x0A, CHR 0x0B, CHR 0x0C, CHR 0x0D, CHR 0x20, CHR 0xA0}"

definition trim :: "string \<Rightarrow> string" where
  "trim s = rev (dropWhile isWhiteSpace (rev (dropWhile isWhiteSpace s)))"

text \<open>The decimal rendering of an integer, as a template literal renders a number.\<close>

function showNat :: "nat \<Rightarrow> string" where
  "showNat n = (if n < 10 then [''0123456789'' ! n] else showNat (n div 10) @ [''0123456789'' ! (n mod 10)])"
  by pat_completeness auto
termination
  by (relation "measure id") auto

declare showNat.simps [simp del]

definition showInt :: "int \<Rightarrow> string" where
  "showInt i = (if i < 0 then CHR ''-'' # showNat (nat (- i)) else showNat (nat i))"

text \<open>
  \<^verbatim>\<open>parseInt(s, 10)\<close>: leading white space is skipped, a sign is read, then the longest
  run of decimal digits; no digit at all is \<^verbatim>\<open>NaN\<close>, here \<open>None\<close>.
\<close>

definition isDigit :: "char \<Rightarrow> bool" where
  "isDigit c \<longleftrightarrow> c \<in> set ''0123456789''"

definition digitsValue :: "string \<Rightarrow> nat" where
  "digitsValue ds = foldl (\<lambda>acc c. 10 * acc + (of_char c - (48::nat))) 0 ds"

definition parseInt10 :: "string \<Rightarrow> int option" where
  "parseInt10 s =
     (let t = dropWhile isWhiteSpace s;
          neg = (t \<noteq> [] \<and> hd t = CHR ''-'');
          u = (if t \<noteq> [] \<and> (hd t = CHR ''-'' \<or> hd t = CHR ''+'') then tl t else t);
          ds = takeWhile isDigit u
      in if ds = [] then None
         else Some (if neg then - int (digitsValue ds) else int (digitsValue ds)))"

text \<open>
  A value that may be \<^verbatim>\<open>undefined\<close> is an option. \<open>truthy\<close> is JavaScript's truth of
  such a string (\<^verbatim>\<open>undefined\<close> and the empty string are false), \<open>or_else\<close> is \<^verbatim>\<open>a || b\<close>
  and \<open>render\<close> is the text a template literal gives.
\<close>

definition truthy :: "string option \<Rightarrow> bool" where
  "truthy v = (case v of None \<Rightarrow> False | Some s \<Rightarrow> s \<noteq> [])"

definition or_else :: "string option \<Rightarrow> string option \<Rightarrow> string option" where
  "or_else a b = (if truthy a then a else b)"

definition render :: "string option \<Rightarrow> string" where
  "render v = (case v of None \<Rightarrow> ''undefined'' | Some s \<Rightarrow> s)"

section \<open>Response normalizer\<close>

text \<open>
  \<^verbatim>\<open>translatedCode.replace(/^```[\s\S]*?\n/, '').replace(/\n```$/, '').trim()\<close>.
  Neither expression has the \<^verbatim>\<open>g\<close> or the \<^verbatim>\<open>m\<close> flag, so each replaces at most one match,
  \<^verbatim>\<open>^\<close> is the start of the string and \<^verbatim>\<open>$\<close> its end. The lazy \<^verbatim>\<open>[\s\S]*?\n\<close> takes one
  code unit at a time until a line feed matches; \<open>lazyToLineFeed\<close> is that loop and fails
  (\<open>None\<close>) at the end of the string.
\<close>

fun lazyToLineFeed :: "string \<Rightarrow> string option" where
  "lazyToLineFeed [] = None"
| "lazyToLineFeed (c # cs) = (if c = LF then Some cs else lazyToLineFeed cs)"

definition removeOpeningFence :: "string \<Rightarrow> string" where
  "removeOpeningFence s =
     (if take 3 s = ''```'' then
        (case lazyToLineFeed (drop 3 s) of None \<Rightarrow> s | Some rest \<Rightarrow> rest)
      else s)"

definition removeClosingFence :: "string \<Rightarrow> string" where
  "removeClosingFence s =
     (if 4 \<le> length s \<and> drop (length s - 4) s = LF # ''```'' then take (length s - 4) s else s)"

definition normalizeTranslatedCode :: "string \<Rightarrow> string" where
  "normalizeTranslatedCode translatedCode = trim (removeClosingFence (removeOpeningFence translatedCode))"

section \<open>The world: module state, transport and user\<close>

text \<open>
  An HTTP response as the code reads it: \<^verbatim>\<open>response.status\<close>, \<^verbatim>\<open>response.statusText\<close>,
  \<^verbatim>\<open>response.data?.translated_code\<close>, \<^verbatim>\<open>response.data?.message\<close> and
  \<^verbatim>\<open>response.headers['retry-after']\<close>; a missing body or field is \<open>None\<close>.
\<close>

record http_response =
  status :: int
  statusText :: string
  translated_code :: "string option"
  data_message :: "string option"
  retry_after :: "string option"

text \<open>
  The fields \<^verbatim>\<open>code\<close>, \<^verbatim>\<open>message\<close>, \<^verbatim>\<open>response\<close> and \<^verbatim>\<open>request\<close> of an \<^verbatim>\<open>AxiosError\<close>, the last
  as its truth value. The field names carry a prefix, since \<^verbatim>\<open>code\<close> is also a parameter
  of \<^verbatim>\<open>translateCode\<close>.
\<close>

record axios_error =
  ax_code :: "string option"
  ax_message :: string
  ax_response :: "http_response option"
  ax_request :: bool

text \<open>
  What a \<^verbatim>\<open>catch\<close> clause can receive: an \<^verbatim>\<open>AxiosError\<close>, another \<^verbatim>\<open>Error\<close> with its
  message, or a value that is no \<^verbatim>\<open>Error\<close> and has neither \<^verbatim>\<open>code\<close> nor \<^verbatim>\<open>message\<close>.
\<close>

datatype exn = AxiosError axios_error | Error string | Thrown

definition error_code :: "exn \<Rightarrow> string option" where
  "error_code e = (case e of AxiosError a \<Rightarrow> ax_code a | Error m \<Rightarrow> None | Thrown \<Rightarrow> None)"

definition error_message :: "exn \<Rightarrow> string option" where
  "error_message e = (case e of AxiosError a \<Rightarrow> Some (ax_message a) | Error m \<Rightarrow> Some m | Thrown \<Rightarrow> None)"

text \<open>What the network does with one request: it answers, or the request fails.\<close>

datatype wire = Replied http_response | Threw exn

text \<open>
  The axios library (version 1, as \<^verbatim>\<open>package.json\<close> requires) settles a request by its
  \<^verbatim>\<open>validateStatus\<close> option: an answer whose status the option accepts resolves the
  promise, any other answer rejects it with an \<^verbatim>\<open>AxiosError\<close> that carries the response.
\<close>

definition settle :: "(int \<Rightarrow> bool) \<Rightarrow> wire \<Rightarrow> exn + http_response" where
  "settle validateStatus r =
     (case r of
        Threw e \<Rightarrow> Inl e
      | Replied resp \<Rightarrow>
          if status resp = 0 \<or> validateStatus (status resp) then Inr resp
          else Inl (AxiosError
            \<lparr>ax_code = (if 400 \<le> status resp \<and> status resp < 500 then Some ''ERR_BAD_REQUEST''
                      else if 500 \<le> status resp \<and> status resp < 600 then Some ''ERR_BAD_RESPONSE''
                      else None),
             ax_message = ''Request failed with status code '' @ showInt (status resp),
             ax_response = Some resp,
             ax_request = True\<rparr>))"

text \<open>
  A delay handed to \<^verbatim>\<open>setTimeout\<close>, in milliseconds; \<^verbatim>\<open>parseInt\<close> can make it \<^verbatim>\<open>NaN\<close>.
\<close>

datatype delay = Ms rat | NaN

text \<open>
  The trace records, in order, the request log line at the entry of \<^verbatim>\<open>translateCode\<close>
  (with its \<^verbatim>\<open>retryCount\<close>), every network call, every awaited dialog and every delay.
\<close>

datatype event =
    LogRequest int
  | HealthGet string
  | ProbeHead string
  | AskUser
  | TranslatePost string string string string bool
  | Sleep delay

text \<open>
  The module variables \<^verbatim>\<open>isApiHealthy\<close> and \<^verbatim>\<open>lastApiCheck\<close>, the configured endpoint,
  and what the surroundings will answer: the successive readings of \<^verbatim>\<open>Date.now()\<close>, the
  outcomes of the successive \<^verbatim>\<open>axios.get\<close>, \<^verbatim>\<open>axios.head\<close> and \<^verbatim>\<open>axios.post\<close> calls, the
  buttons the user picks in the awaited dialogs (\<open>None\<close> when a dialog is dismissed) and
  the values of \<^verbatim>\<open>Math.random()\<close>.
\<close>

record world =
  isApiHealthy :: bool
  lastApiCheck :: int
  apiEndpoint :: string
  clock :: "int stream"
  health_replies :: "wire stream"
  probe_replies :: "wire stream"
  post_replies :: "wire stream"
  prompts :: "string option stream"
  randoms :: "rat stream"
  trace :: "event list"

definition emit :: "event \<Rightarrow> world \<Rightarrow> world" where
  "emit e w = w\<lparr>trace := trace w @ [e]\<rparr>"

definition Date_now :: "world \<Rightarrow> int \<times> world" where
  "Date_now w = (shd (clock w), w\<lparr>clock := stl (clock w)\<rparr>)"

definition axios_get :: "string \<Rightarrow> world \<Rightarrow> (exn + http_response) \<times> world" where
  "axios_get url w =
     (settle (\<lambda>st. True) (shd (health_replies w)),
      emit (HealthGet url) (w\<lparr>health_replies := stl (health_replies w)\<rparr>))"

definition axios_head :: "string \<Rightarrow> world \<Rightarrow> (exn + http_response) \<times> world" where
  "axios_head url w =
     (settle (\<lambda>st. True) (shd (probe_replies w)),
      emit (ProbeHead url) (w\<lparr>probe_replies := stl (probe_replies w)\<rparr>))"

definition axios_post :: "string \<Rightarrow> string \<Rightarrow> string \<Rightarrow> string \<Rightarrow> bool \<Rightarrow> world \<Rightarrow> (exn + http_response) \<times> world" where
  "axios_post url source_code from_lang to_lang preserve_comments w =
     (settle (\<lambda>st. st < 500) (shd (post_replies w)),
      emit (TranslatePost url source_code from_lang to_lang preserve_comments)
        (w\<lparr>post_replies := stl (post_replies w)\<rparr>))"

definition showErrorMessage :: "world \<Rightarrow> string option \<times> world" where
  "showErrorMessage w = (shd (prompts w), emit AskUser (w\<lparr>prompts := stl (prompts w)\<rparr>))"

definition Math_random :: "world \<Rightarrow> rat \<times> world" where
  "Math_random w = (shd (randoms w), w\<lparr>randoms := stl (randoms w)\<rparr>)"

definition setTimeout :: "delay \<Rightarrow> world \<Rightarrow> world" where
  "setTimeout d w = emit (Sleep d) w"

section \<open>Connectivity probe\<close>

record connection_test =
  success :: bool
  test_status :: "int option"
  test_message :: string

definition testConnection_try :: "string \<Rightarrow> world \<Rightarrow> (exn + connection_test) \<times> world" where
  "testConnection_try url w =
     (let (startTime, w1) = Date_now w;
          (r, w2) = axios_head url w1
      in case r of
           Inl e \<Rightarrow> (Inl e, w2)
         | Inr resp \<Rightarrow>
             let (endTime, w3) = Date_now w2;
                 responseTime = endTime - startTime
             in (Inr \<lparr>success = (status resp < 400),
                      test_status = Some (status resp),
                      test_message = ''Connection successful ('' @ showInt (status resp) @ '' in ''
                                       @ showInt responseTime @ ''ms)''\<rparr>, w3))"

definition testConnection_catch :: "exn \<Rightarrow> world \<Rightarrow> (exn + connection_test) \<times> world" where
  "testConnection_catch error w =
     (Inr \<lparr>success = False,
           test_status = None,
           test_message = ''Connection failed: '' @ render (or_else (error_code error) (error_message error))\<rparr>, w)"

definition testConnection :: "string \<Rightarrow> world \<Rightarrow> (exn + connection_test) \<times> world" where
  "testConnection url w =
     (case testConnection_try url w of
        (Inl error, w1) \<Rightarrow> testConnection_catch error w1
      | (Inr r, w1) \<Rightarrow> (Inr r, w1))"

section \<open>Health monitor\<close>

definition API_HEALTH_CHECK_INTERVAL :: int where
  "API_HEALTH_CHECK_INTERVAL = 5 * 60 * 1000"

record health_check =
  isHealthy :: bool
  health_message :: "string option"

text \<open>\<^verbatim>\<open>apiEndpoint.replace(/\/translate$/, '/health')\<close>\<close>

definition healthCheckUrl :: "string \<Rightarrow> string" where
  "healthCheckUrl endpoint =
     (if 10 \<le> length endpoint \<and> drop (length endpoint - 10) endpoint = ''/translate''
      then take (length endpoint - 10) endpoint @ ''/health''
      else endpoint)"

text \<open>
  \<open>checkApiHealth_try\<close> is the \<^verbatim>\<open>try\<close> block, entered with \<open>now\<close> already read:
  \<^verbatim>\<open>lastApiCheck = now\<close> comes before the request.
\<close>

definition checkApiHealth_try :: "string \<Rightarrow> int \<Rightarrow> world \<Rightarrow> (exn + health_check) \<times> world" where
  "checkApiHealth_try url now w =
     (let w1 = w\<lparr>lastApiCheck := now\<rparr>;
          (r, w2) = axios_get url w1
      in case r of
           Inl e \<Rightarrow> (Inl e, w2)
         | Inr resp \<Rightarrow>
             let healthy = (status resp = 200);
                 w3 = w2\<lparr>isApiHealthy := healthy\<rparr>
             in (Inr \<lparr>isHealthy = healthy,
                      health_message = Some (if healthy then ''API is healthy''
                                             else ''API returned status '' @ showInt (status resp))\<rparr>, w3))"

definition checkApiHealth_catch :: "exn \<Rightarrow> world \<Rightarrow> (exn + health_check) \<times> world" where
  "checkApiHealth_catch error w =
     (Inr \<lparr>isHealthy = False,
           health_message = Some (''Connection failed: '' @ render (or_else (error_code error) (error_message error)))\<rparr>,
      w\<lparr>isApiHealthy := False\<rparr>)"

definition checkApiHealth :: "string \<Rightarrow> world \<Rightarrow> (exn + health_check) \<times> world" where
  "checkApiHealth endpoint w =
     (let (now, w1) = Date_now w
      in if now - lastApiCheck w1 < API_HEALTH_CHECK_INTERVAL
         then (Inr \<lparr>isHealthy = isApiHealthy w1, health_message = None\<rparr>, w1)
         else (case checkApiHealth_try (healthCheckUrl endpoint) now w1 of
                 (Inl error, w2) \<Rightarrow> checkApiHealth_catch error w2
               | (Inr r, w2) \<Rightarrow> (Inr r, w2)))"

section \<open>Translation orchestrator\<close>

text \<open>
  How one activation of \<^verbatim>\<open>translateCode\<close> leaves a block: it returns the translated
  text, it returns the promise of a new activation (\<^verbatim>\<open>return translateCode(code, sourceLang,
  targetLang, preserveComments, n)\<close>, where only the last argument ever changes), or it
  throws. A returned promise is not awaited, so its rejection is not caught by the
  \<^verbatim>\<open>try\<close> blocks of the activation that returned it.
\<close>

datatype step = Return string | Recurse int | Raise exn

definition maxRetries :: int where
  "maxRetries = 1"

definition MAX_CODE_LENGTH :: nat where
  "MAX_CODE_LENGTH = 10000"

text \<open>The outcome of the block guarded by \<^verbatim>\<open>if (!healthCheck.isHealthy)\<close>.\<close>

datatype gate = Proceed | CheckAgain | Stop exn

definition health_gate :: "world \<Rightarrow> gate \<times> world" where
  "health_gate w =
     (case checkApiHealth (apiEndpoint w) w of
        (Inl e, w1) \<Rightarrow> (Stop e, w1)
      | (Inr healthCheck, w1) \<Rightarrow>
          if \<not> isHealthy healthCheck then
            (case testConnection (apiEndpoint w1) w1 of
               (Inl e, w2) \<Rightarrow> (Stop e, w2)
             | (Inr connectionTest, w2) \<Rightarrow>
                 let (result, w3) = showErrorMessage w2
                 in if result = Some ''Check Again'' then (CheckAgain, w3\<lparr>lastApiCheck := 0\<rparr>)
                    else if result = Some ''Open Network Settings''
                      then (Stop (Error ''Please check your network settings and try again.''), w3)
                    else if result \<noteq> Some ''Try Anyway''
                      then (Stop (Error ''Translation aborted by user''), w3)
                    else (Proceed, w3))
          else (Proceed, w1))"

text \<open>The inner \<^verbatim>\<open>try\<close> block: the request and the reading of its answer.\<close>

definition request_try :: "string \<Rightarrow> string \<Rightarrow> string \<Rightarrow> bool \<Rightarrow> world \<Rightarrow> (exn + string) \<times> world" where
  "request_try code sourceLang targetLang preserveComments w =
     (let (r, w1) = axios_post (apiEndpoint w) code sourceLang targetLang preserveComments w
      in case r of
           Inl e \<Rightarrow> (Inl e, w1)
         | Inr resp \<Rightarrow>
             if 200 \<le> status resp \<and> status resp < 300 then
               (if truthy (translated_code resp) then
                  (let codeWithoutMarkdown = normalizeTranslatedCode (render (translated_code resp))
                   in if codeWithoutMarkdown = []
                      then (Inl (Error ''Received empty translation from the server''), w1)
                      else (Inr codeWithoutMarkdown, w1))
                else (Inl (Error ''Invalid response format from translation service: Missing translated_code''), w1))
             else
               (let errorMessage =
                      or_else (data_message resp)
                        (or_else (Some (statusText resp))
                           (Some (''Request failed with status '' @ showInt (status resp))))
                in (Inl (Error (''Translation failed: '' @ render errorMessage)), w1)))"

text \<open>\<^verbatim>\<open>parseInt(error.response.headers['retry-after'] || '5', 10) * 1000\<close>\<close>

definition retryAfter :: "http_response \<Rightarrow> delay" where
  "retryAfter resp =
     (case parseInt10 (render (or_else (retry_after resp) (Some ''5''))) of
        None \<Rightarrow> NaN
      | Some n \<Rightarrow> Ms (of_int n * 1000))"

text \<open>The inner \<^verbatim>\<open>catch\<close> block.\<close>

definition request_catch :: "int \<Rightarrow> exn \<Rightarrow> world \<Rightarrow> step \<times> world" where
  "request_catch retryCount error w =
     (case error of
        AxiosError e \<Rightarrow>
          if ax_code e = Some ''ECONNABORTED'' \<or> map_option status (ax_response e) = Some 504 then
            (if retryCount > 0 then (Recurse (retryCount - 1), setTimeout (Ms 1000) w)
             else (Raise (Error ''Translation service is currently unavailable. The request timed out.''), w))
          else
            (case ax_response e of
               Some resp \<Rightarrow>
                 (let msg = or_else (data_message resp) (or_else (Some (ax_message e)) (Some ''Unknown error occurred''))
                  in if status resp = 429 then
                       (if retryCount > 0 then (Recurse (retryCount - 1), setTimeout (retryAfter resp) w)
                        else (Raise (Error ''Translation service rate limit exceeded. Please try again later.''), w))
                     else (Raise (Error (''Translation failed ('' @ showInt (status resp) @ ''): '' @ render msg)), w))
             | None \<Rightarrow>
                 if ax_request e
                 then (Raise (Error ''No response received from the translation service. Please check your connection.''), w)
                 else (Raise (Error (''Failed to send translation request: '' @ ax_message e)), w))
      | Error m \<Rightarrow> (Raise (Error (''Translation failed: '' @ m)), w)
      | Thrown \<Rightarrow> (Raise (Error ''Translation failed: An unknown error occurred''), w))"

text \<open>
  The outer \<^verbatim>\<open>try\<close> block, from the health check to the request. The two dialogs that
  are shown without \<^verbatim>\<open>await\<close> (the size warning and the unsupported-pair message) do
  not hold the function up and are left out.
\<close>

definition translate_try :: "string \<Rightarrow> string \<Rightarrow> string \<Rightarrow> bool \<Rightarrow> int \<Rightarrow> world \<Rightarrow> step \<times> world" where
  "translate_try code sourceLang targetLang preserveComments retryCount w =
     (case health_gate w of
        (Stop e, w1) \<Rightarrow> (Raise e, w1)
      | (CheckAgain, w1) \<Rightarrow> (Recurse retryCount, w1)
      | (Proceed, w1) \<Rightarrow>
          if length code > MAX_CODE_LENGTH then (Raise (Error ''Code too large for translation''), w1)
          else if \<not> isLanguagePairSupported sourceLang targetLang then
            (Raise (Error (''Translation from '' @ sourceLang @ '' to '' @ targetLang @ '' is not supported.'')), w1)
          else
            (case request_try code sourceLang targetLang preserveComments w1 of
               (Inr text, w2) \<Rightarrow> (Return text, w2)
             | (Inl error, w2) \<Rightarrow> request_catch retryCount error w2))"

text \<open>
  The outer \<^verbatim>\<open>catch\<close> block. After the last dialog the code only opens documents or
  starts a command, which the model leaves out; the dialog itself is awaited.
\<close>

definition translate_catch :: "int \<Rightarrow> exn \<Rightarrow> world \<Rightarrow> step \<times> world" where
  "translate_catch retryCount error w =
     (case error of
        AxiosError e \<Rightarrow>
          if ax_code e = Some ''ECONNABORTED'' \<or> map_option status (ax_response e) = Some 504 then
            (if retryCount > 0 then
               (let backoffTime = min (1000 * 2 powi (maxRetries - retryCount)) 30000;
                    (r, w1) = Math_random w;
                    jitter = \<lfloor>r * 1000\<rfloor>
                in (Recurse (retryCount - 1), setTimeout (Ms (backoffTime + of_int jitter)) w1))
             else
               (let (answer, w1) = showErrorMessage w
                in (Raise (Error ''Translation service unavailable. Please try again later.''), w1)))
          else
            (case ax_response e of
               Some resp \<Rightarrow>
                 (let msg = or_else (data_message resp) (or_else (Some (ax_message e)) (Some ''Unknown error occurred''))
                  in if status resp = 429 then
                       (if retryCount > 0 then (Recurse (retryCount - 1), setTimeout (retryAfter resp) w)
                        else (Raise (Error ''Translation service rate limit exceeded. Please try again later.''), w))
                     else if status resp = 413 then
                       (Raise (Error ''The code is too large to translate. Please reduce the size and try again.''), w)
                     else (Raise (Error (''Translation failed ('' @ showInt (status resp) @ ''): '' @ render msg)), w))
             | None \<Rightarrow>
                 if ax_request e then
                   (if retryCount > 0 \<and> (ax_code e = Some ''ECONNRESET'' \<or> ax_code e = Some ''ETIMEDOUT''
                                          \<or> ax_code e = Some ''ENOTFOUND'')
                    then (Recurse (retryCount - 1), setTimeout (Ms (1000 * 2 powi (maxRetries - retryCount))) w)
                    else if ax_code e = Some ''ENOTFOUND'' then
                      (Raise (Error ''Could not connect to the translation service. Please check your internet connection.''), w)
                    else if ax_code e = Some ''ECONNRESET'' then
                      (Raise (Error ''Connection to the translation service was reset. Please try again.''), w)
                    else
                      (Raise (Error ''No response received from the translation service. Please check your connection.''), w))
                 else (Raise (Error (''Failed to send translation request: '' @ ax_message e)), w))
      | Error m \<Rightarrow> (Raise (Error (''Translation failed: '' @ m)), w)
      | Thrown \<Rightarrow> (Raise (Error ''Translation failed: An unknown error occurred''), w))"

text \<open>One activation: the request log line, the outer \<^verbatim>\<open>try\<close>, and its \<^verbatim>\<open>catch\<close>.\<close>

definition translateCode_body :: "string \<Rightarrow> string \<Rightarrow> string \<Rightarrow> bool \<Rightarrow> int \<Rightarrow> world \<Rightarrow> step \<times> world" where
  "translateCode_body code sourceLang targetLang preserveComments retryCount w =
     (case translate_try code sourceLang targetLang preserveComments retryCount (emit (LogRequest retryCount) w) of
        (Raise error, w1) \<Rightarrow> translate_catch retryCount error w1
      | (Return text, w1) \<Rightarrow> (Return text, w1)
      | (Recurse n, w1) \<Rightarrow> (Recurse n, w1))"

text \<open>
  \<^verbatim>\<open>translateCode\<close> calls itself, and nothing in the code bounds the number of
  activations, so the model counts them: the first argument is the number of
  activations allowed, and \<open>None\<close> says that they did not suffice. \<open>Inl\<close> is the rejection
  of the promise, \<open>Inr\<close> its value.
\<close>

primrec translateCode :: "nat \<Rightarrow> string \<Rightarrow> string \<Rightarrow> string \<Rightarrow> bool \<Rightarrow> int \<Rightarrow> world \<Rightarrow> ((exn + string) \<times> world) option" where
  "translateCode 0 code sourceLang targetLang preserveComments retryCount w = None"
| "translateCode (Suc fuel) code sourceLang targetLang preserveComments retryCount w =
     (case translateCode_body code sourceLang targetLang preserveComments retryCount w of
        (Return text, w1) \<Rightarrow> Some (Inr text, w1)
      | (Raise error, w1) \<Rightarrow> Some (Inl error, w1)
      | (Recurse n, w1) \<Rightarrow> translateCode fuel code sourceLang targetLang preserveComments n w1)"

text \<open>What a trace holds: the logged budgets, the translate requests, the delays.\<close>

fun budgets :: "event list \<Rightarrow> int list" where
  "budgets [] = []"
| "budgets (LogRequest n # es) = n # budgets es"
| "budgets (e # es) = budgets es"

fun posts :: "event list \<Rightarrow> nat" where
  "posts [] = 0"
| "posts (TranslatePost u c s t p # es) = Suc (posts es)"
| "posts (e # es) = posts es"

fun sleeps :: "event list \<Rightarrow> delay list" where
  "sleeps [] = []"
| "sleeps (Sleep d # es) = d # sleeps es"
| "sleeps (e # es) = sleeps es"

fun network_calls :: "event list \<Rightarrow> nat" where
  "network_calls [] = 0"
| "network_calls (HealthGet u # es) = Suc (network_calls es)"
| "network_calls (ProbeHead u # es) = Suc (network_calls es)"
| "network_calls (TranslatePost u c s t p # es) = Suc (network_calls es)"
| "network_calls (e # es) = network_calls es"

text \<open>
  How two worlds can differ. \<open>quiet w w'\<close>: between them no translate request was sent,
  no delay was waited and no activation was entered. \<open>attempted w w'\<close>: one translate request
  was sent. \<open>delayed w w'\<close>: one translate request was sent and one delay was waited, of one
  second or of the length the \<^verbatim>\<open>retry-after\<close> header gives. In all three the random source was not
  read and at most one dialog was answered.
\<close>

definition quiet :: "world \<Rightarrow> world \<Rightarrow> bool" where
  "quiet w w' \<longleftrightarrow> post_replies w' = post_replies w \<and> apiEndpoint w' = apiEndpoint w
     \<and> randoms w' = randoms w \<and> posts (trace w') = posts (trace w)
     \<and> sleeps (trace w') = sleeps (trace w) \<and> budgets (trace w') = budgets (trace w)
     \<and> (prompts w' = prompts w \<or> prompts w' = stl (prompts w))"

definition attempted :: "world \<Rightarrow> world \<Rightarrow> bool" where
  "attempted w w' \<longleftrightarrow> posts (trace w') = Suc (posts (trace w))
     \<and> sleeps (trace w') = sleeps (trace w) \<and> budgets (trace w') = budgets (trace w)
     \<and> randoms w' = randoms w \<and> apiEndpoint w' = apiEndpoint w
     \<and> (prompts w' = prompts w \<or> prompts w' = stl (prompts w))"

definition delayed :: "world \<Rightarrow> world \<Rightarrow> bool" where
  "delayed w w' \<longleftrightarrow> posts (trace w') = Suc (posts (trace w))
     \<and> (\<exists>d. sleeps (trace w') = sleeps (trace w) @ [d] \<and> (d = Ms 1000 \<or> (\<exists>resp. d = retryAfter resp)))
     \<and> budgets (trace w') = budgets (trace w)
     \<and> randoms w' = randoms w \<and> apiEndpoint w' = apiEndpoint w
     \<and> (prompts w' = prompts w \<or> prompts w' = stl (prompts w))"

section \<open>Scenarios\<close>

text \<open>
  Concrete worlds for the examples below. \<open>startWorld\<close> is the module state at process
  start (\<^verbatim>\<open>isApiHealthy = true\<close>, \<^verbatim>\<open>lastApiCheck = 0\<close>) with the default endpoint, a clock
  that reads a date in 2023, a service that answers every request with status 200 and a
  fenced translation, and a user who dismisses every dialog. \<open>warmWorld\<close> is the same
  world with a health check made at the current clock reading, so that the cached
  state is used.
\<close>

definition defaultEndpoint :: string where
  "defaultEndpoint = ''https://translate.u16p.com/api/v1/translate''"

definition okResponse :: "string \<Rightarrow> http_response" where
  "okResponse body = \<lparr>status = 200, statusText = ''OK'', translated_code = Some body,
     data_message = None, retry_after = None\<rparr>"

definition timeoutError :: exn where
  "timeoutError = AxiosError \<lparr>ax_code = Some ''ECONNABORTED'',
     ax_message = ''timeout of 10000ms exceeded'', ax_response = None, ax_request = True\<rparr>"

definition startWorld :: world where
  "startWorld = \<lparr>isApiHealthy = True, lastApiCheck = 0, apiEndpoint = defaultEndpoint,
     clock = sconst 1700000000000,
     health_replies = sconst (Replied (okResponse [])),
     probe_replies = sconst (Replied (okResponse [])),
     post_replies = sconst (Replied (okResponse ''```js\<newline>x\<newline>```'')),
     prompts = sconst None, randoms = sconst (1 / 2), trace = []\<rparr>"

definition warmWorld :: world where
  "warmWorld = startWorld\<lparr>lastApiCheck := 1700000000000\<rparr>"

definition healthEndpoint :: string where
  "healthEndpoint = ''https://translate.u16p.com/api/v1/health''"

text \<open>
  An answer with status 429 and \<^verbatim>\<open>retry-after: 2\<close>; the rejection of a request that the
  \<^verbatim>\<open>AbortController\<close> aborted; and worlds in which the service always answers 429, the
  first request times out, the first request is aborted, every request times out, the
  health check fails and the user picks \<^verbatim>\<open>Check Again\<close> once or every time, and the
  translation is empty or an empty fence.
\<close>

definition tooManyRequests :: http_response where
  "tooManyRequests = \<lparr>status = 429, statusText = ''Too Many Requests'', translated_code = None,
     data_message = None, retry_after = Some ''2''\<rparr>"

definition canceledError :: exn where
  "canceledError = AxiosError \<lparr>ax_code = Some ''ERR_CANCELED'', ax_message = ''canceled'',
     ax_response = None, ax_request = True\<rparr>"

definition rateLimitedWorld :: world where
  "rateLimitedWorld = warmWorld\<lparr>post_replies := sconst (Replied tooManyRequests)\<rparr>"

definition timeoutOnceWorld :: world where
  "timeoutOnceWorld = warmWorld\<lparr>post_replies := Threw timeoutError ## post_replies warmWorld\<rparr>"

definition abortedOnceWorld :: world where
  "abortedOnceWorld = warmWorld\<lparr>post_replies := Threw canceledError ## post_replies warmWorld\<rparr>"

definition alwaysTimeoutWorld :: world where
  "alwaysTimeoutWorld = warmWorld\<lparr>post_replies := sconst (Threw timeoutError)\<rparr>"

definition checkAgainOnceWorld :: world where
  "checkAgainOnceWorld = startWorld\<lparr>health_replies := sconst (Threw timeoutError),
     prompts := Some ''Check Again'' ## sconst (Some ''Try Anyway'')\<rparr>"

definition stuckWorld :: world where
  "stuckWorld = startWorld\<lparr>health_replies := sconst (Threw timeoutError),
     prompts := sconst (Some ''Check Again'')\<rparr>"

definition emptyPayloadWorld :: world where
  "emptyPayloadWorld = warmWorld\<lparr>post_replies := sconst (Replied (okResponse []))\<rparr>"

definition emptyFenceWorld :: world where
  "emptyFenceWorld = warmWorld\<lparr>post_replies := sconst (Replied (okResponse ''```\<newline>''))\<rparr>"

text \<open>The result of a run and the trace it leaves.\<close>

definition outcome :: "((exn + string) \<times> world) option \<Rightarrow> ((exn + string) \<times> event list) option" where
  "outcome r = map_option (\<lambda>(res, w). (res, trace w)) r"

section \<open>Properties of the registry\<close>

lemma set_array_from_set_fold:
  "set (fold (\<lambda>x acc. if x \<in> set acc then acc else acc @ [x]) xs ys) = set ys \<union> set xs"
  by (induction xs arbitrary: ys) auto

lemma set_array_from_set: "set (array_from_set xs) = set xs"
  by (simp add: array_from_set_def set_array_from_set_fold)

lemma supported_iff: "isLanguagePairSupported a b \<longleftrightarrow> (a, b) \<in> set SUPPORTED_LANGUAGE_PAIRS"
  by (force simp: isLanguagePairSupported_def list_ex_iff)

lemma targets_iff:
  "b \<in> set (getSupportedTargetLanguages a) \<longleftrightarrow> (a, b) \<in> set SUPPORTED_LANGUAGE_PAIRS"
  by (force simp: getSupportedTargetLanguages_def set_array_from_set)

lemma table_has_reverses:
  "list_all (\<lambda>p. (snd p, fst p) \<in> set SUPPORTED_LANGUAGE_PAIRS) SUPPORTED_LANGUAGE_PAIRS"
  by code_simp

lemma table_reverse: "(a, b) \<in> set SUPPORTED_LANGUAGE_PAIRS \<Longrightarrow> (b, a) \<in> set SUPPORTED_LANGUAGE_PAIRS"
  using table_has_reverses by (auto simp: list_all_iff)

text \<open>
  C10. The admission relation of the registry is symmetric: a pair \<open>(a, b)\<close> is supported
  exactly when \<open>(b, a)\<close> is, and \<open>b\<close> is among the targets offered for \<open>a\<close> exactly when
  \<open>a\<close> is among the targets offered for \<open>b\<close>.
\<close>

theorem registry_symmetric:
  "isLanguagePairSupported a b = isLanguagePairSupported b a
   \<and> (b \<in> set (getSupportedTargetLanguages a) \<longleftrightarrow> a \<in> set (getSupportedTargetLanguages b))"
  using table_reverse [of a b] table_reverse [of b a]
  by (auto simp: supported_iff targets_iff)

section \<open>Properties of the normalizer\<close>

lemma lazyToLineFeed_first: "LF \<notin> set info \<Longrightarrow> lazyToLineFeed (info @ LF # rest) = Some rest"
  by (induction info) auto

lemma lazyToLineFeed_None: "lazyToLineFeed s = None \<longleftrightarrow> LF \<notin> set s"
  by (induction s) auto

lemma lazyToLineFeed_Some: "lazyToLineFeed s = Some rest \<Longrightarrow> \<exists>info. s = info @ LF # rest \<and> LF \<notin> set info"
proof (induction s)
  case Nil
  then show ?case by simp
next
  case (Cons c cs)
  show ?case
  proof (cases "c = LF")
    case True
    with Cons.prems have "c # cs = [] @ LF # rest" by simp
    then show ?thesis by (metis empty_iff empty_set)
  next
    case False
    with Cons obtain info where "cs = info @ LF # rest" "LF \<notin> set info" by auto
    with False have "c # cs = (c # info) @ LF # rest \<and> LF \<notin> set (c # info)" by simp
    then show ?thesis by blast
  qed
qed

lemma removeOpeningFence_strips:
  "LF \<notin> set info \<Longrightarrow> removeOpeningFence (''```'' @ info @ LF # rest) = rest"
  by (simp add: removeOpeningFence_def lazyToLineFeed_first)

lemma removeOpeningFence_keeps:
  assumes "\<nexists>info rest. s = ''```'' @ info @ LF # rest"
  shows "removeOpeningFence s = s"
proof (cases "take 3 s = ''```''")
  case False
  then show ?thesis by (simp add: removeOpeningFence_def)
next
  case True
  then have s: "s = ''```'' @ drop 3 s" by (metis append_take_drop_id)
  have "LF \<notin> set (drop 3 s)"
  proof
    assume "LF \<in> set (drop 3 s)"
    then obtain a b where "drop 3 s = a @ LF # b" by (meson split_list)
    with s have "s = ''```'' @ a @ LF # b" by simp
    with assms show False by blast
  qed
  then have "lazyToLineFeed (drop 3 s) = None" by (simp add: lazyToLineFeed_None)
  then show ?thesis by (simp add: removeOpeningFence_def)
qed

lemma removeClosingFence_strips: "removeClosingFence (body @ LF # ''```'') = body"
  by (simp add: removeClosingFence_def)

lemma removeClosingFence_keeps:
  assumes "\<nexists>body. s = body @ LF # ''```''"
  shows "removeClosingFence s = s"
proof -
  have "\<not> (4 \<le> length s \<and> drop (length s - 4) s = LF # ''```'')"
  proof
    assume a: "4 \<le> length s \<and> drop (length s - 4) s = LF # ''```''"
    have "s = take (length s - 4) s @ drop (length s - 4) s" by simp
    with a have "s = take (length s - 4) s @ LF # ''```''" by simp
    with assms show False by blast
  qed
  then show ?thesis unfolding removeClosingFence_def by (rule if_not_P)
qed

lemma rev_dropWhile_takeWhile: "rev (dropWhile P (rev m)) @ rev (takeWhile P (rev m)) = m"
  by (metis rev_append rev_rev_ident takeWhile_dropWhile_id)

lemma trim_decomposition:
  "\<exists>l r. s = l @ trim s @ r \<and> (\<forall>c \<in> set l \<union> set r. isWhiteSpace c)"
proof -
  let ?l = "takeWhile isWhiteSpace s"
  let ?m = "dropWhile isWhiteSpace s"
  let ?r = "rev (takeWhile isWhiteSpace (rev ?m))"
  have 1: "s = ?l @ ?m" by simp
  have 2: "?m = trim s @ ?r" unfolding trim_def by (rule rev_dropWhile_takeWhile [symmetric])
  have 3: "\<forall>c \<in> set ?l \<union> set ?r. isWhiteSpace c"
    by (auto dest: set_takeWhileD)
  from 1 2 have "s = ?l @ trim s @ ?r" by simp
  with 3 show ?thesis by blast
qed

lemma trim_ends:
  assumes "trim s \<noteq> []"
  shows "\<not> isWhiteSpace (hd (trim s)) \<and> \<not> isWhiteSpace (last (trim s))"
proof -
  let ?m = "dropWhile isWhiteSpace s"
  let ?d = "dropWhile isWhiteSpace (rev ?m)"
  from assms have d: "?d \<noteq> []" by (simp add: trim_def)
  then have h: "\<not> isWhiteSpace (hd ?d)" by (rule hd_dropWhile)
  have "last (trim s) = hd ?d" using d by (simp add: trim_def last_rev)
  with h have l: "\<not> isWhiteSpace (last (trim s))" by simp
  from d have m: "?m \<noteq> []" by (metis dropWhile.simps(1) rev.simps(1))
  then have hm: "\<not> isWhiteSpace (hd ?m)" by (rule hd_dropWhile)
  have "?m = trim s @ rev (takeWhile isWhiteSpace (rev ?m))"
    unfolding trim_def by (rule rev_dropWhile_takeWhile [symmetric])
  then have "hd ?m = hd (trim s)" using assms by (metis hd_append2)
  with hm l show ?thesis by simp
qed

lemma normalize_example:
  "normalizeTranslatedCode ''```python\<newline>print(1)\<newline>```'' = ''print(1)''"
  by (simp add: normalizeTranslatedCode_def removeOpeningFence_def removeClosingFence_def trim_def LF_def isWhiteSpace_def)

text \<open>
  C7. The normalizer is the composition of three steps. The first removes one opening
  fence: the three backquotes at the start of the text and everything up to and
  including the first line feed after them; a text that has no such fence is kept.
  The second removes one closing fence: a line feed followed by three backquotes at
  the very end; a text that does not end so is kept. The third removes the white space
  around the text. On \<^verbatim>\<open>"```python\nprint(1)\n```"\<close> the result is \<^verbatim>\<open>"print(1)"\<close>.
\<close>

theorem normalizer_strips_one_fence_each_side:
  "normalizeTranslatedCode raw = trim (removeClosingFence (removeOpeningFence raw))
   \<and> (\<forall>info rest. LF \<notin> set info \<longrightarrow> removeOpeningFence (''```'' @ info @ LF # rest) = rest)
   \<and> ((\<nexists>info rest. raw = ''```'' @ info @ LF # rest) \<longrightarrow> removeOpeningFence raw = raw)
   \<and> (\<forall>body. removeClosingFence (body @ LF # ''```'') = body)
   \<and> ((\<nexists>body. raw = body @ LF # ''```'') \<longrightarrow> removeClosingFence raw = raw)
   \<and> (\<exists>l r. raw = l @ trim raw @ r \<and> (\<forall>c \<in> set l \<union> set r. isWhiteSpace c))
   \<and> (trim raw \<noteq> [] \<longrightarrow> \<not> isWhiteSpace (hd (trim raw)) \<and> \<not> isWhiteSpace (last (trim raw)))
   \<and> normalizeTranslatedCode ''```python\<newline>print(1)\<newline>```'' = ''print(1)''"
  using removeOpeningFence_strips removeOpeningFence_keeps [of raw] removeClosingFence_strips
    removeClosingFence_keeps [of raw] trim_decomposition [of raw] trim_ends [of raw] normalize_example
  by (simp add: normalizeTranslatedCode_def)

theorem normalizer_witness:
  "LF \<notin> set ''python'' \<and> removeOpeningFence (''```'' @ ''python'' @ LF # ''print(1)'') = ''print(1)''
   \<and> (\<nexists>info rest. ''print(1)'' = ''```'' @ info @ LF # rest) \<and> removeOpeningFence ''print(1)'' = ''print(1)''
   \<and> (\<nexists>body. ''print(1)'' = body @ LF # ''```'') \<and> removeClosingFence ''print(1)'' = ''print(1)''
   \<and> trim ''print(1)'' \<noteq> [] \<and> \<not> isWhiteSpace (hd (trim ''print(1)''))"
proof -
  have a: "LF \<notin> set ''python''" by (simp add: LF_def)
  have b: "\<nexists>info rest. ''print(1)'' = ''```'' @ info @ LF # rest" by simp
  have c: "\<nexists>body. ''print(1)'' = body @ LF # ''```''"
  proof
    assume "\<exists>body. ''print(1)'' = body @ LF # ''```''"
    then obtain body where "''print(1)'' = body @ LF # ''```''" by blast
    then have "last ''print(1)'' = last (body @ LF # ''```'')" by simp
    then show False by simp
  qed
  have d: "trim ''print(1)'' \<noteq> []" by (simp add: trim_def isWhiteSpace_def)
  from a b c d normalizer_strips_one_fence_each_side [of "''print(1)''"] show ?thesis
    by blast
qed


section \<open>Properties of the connectivity probe and of the health monitor\<close>

lemma trace_emit [simp]: "trace (emit e w) = trace w @ [e]"
  by (simp add: emit_def)

lemma network_calls_append [simp]: "network_calls (xs @ ys) = network_calls xs + network_calls ys"
  by (induction xs rule: network_calls.induct) auto

lemma testConnection_returns:
  "\<exists>r w'. testConnection url w = (Inr r, w')"
  by (auto simp: testConnection_def testConnection_try_def testConnection_catch_def Let_def
      split: prod.splits sum.splits)

lemma testConnection_failure:
  assumes "shd (probe_replies w) = Threw e"
  shows "testConnection url w =
    (Inr \<lparr>success = False, test_status = None,
          test_message = ''Connection failed: '' @ render (or_else (error_code e) (error_message e))\<rparr>,
     emit (ProbeHead url) (w\<lparr>clock := stl (clock w), probe_replies := stl (probe_replies w)\<rparr>))"
  using assms
  by (simp add: testConnection_def testConnection_try_def testConnection_catch_def Let_def
      Date_now_def axios_head_def settle_def)

lemma testConnection_answer:
  assumes "shd (probe_replies w) = Replied resp"
  shows "\<exists>msg w'. testConnection url w =
    (Inr \<lparr>success = (status resp < 400), test_status = Some (status resp), test_message = msg\<rparr>, w')"
  using assms
  by (simp add: testConnection_def testConnection_try_def testConnection_catch_def Let_def
      Date_now_def axios_head_def settle_def)

text \<open>
  C9. The connectivity probe never throws: for every URL and every outcome of the
  request it returns a result record. A failed request (a timeout, a DNS failure, a
  reset connection: whatever the transport rejects with) gives the negative result,
  without a status, whose message is \<^verbatim>\<open>Connection failed: \<close> followed by the code of the
  error or, when it has none, by its message. An answered request gives the status, and
  the result is positive exactly for a status below 400.
\<close>

theorem testConnection_never_throws:
  "\<exists>r w'. testConnection url w = (Inr r, w')
     \<and> (\<forall>e. shd (probe_replies w) = Threw e \<longrightarrow>
           \<not> success r \<and> test_status r = None
           \<and> test_message r = ''Connection failed: '' @ render (or_else (error_code e) (error_message e)))
     \<and> (\<forall>resp. shd (probe_replies w) = Replied resp \<longrightarrow>
           success r = (status resp < 400) \<and> test_status r = Some (status resp))"
proof (cases "shd (probe_replies w)")
  case (Replied resp)
  from testConnection_answer [OF this, of url] show ?thesis
    using Replied by auto
next
  case (Threw e)
  from testConnection_failure [OF this, of url] show ?thesis
    using Threw by auto
qed

theorem testConnection_never_throws_witness:
  "shd (probe_replies (startWorld\<lparr>probe_replies := sconst (Threw timeoutError)\<rparr>)) = Threw timeoutError
   \<and> (\<exists>r w'. testConnection defaultEndpoint (startWorld\<lparr>probe_replies := sconst (Threw timeoutError)\<rparr>) = (Inr r, w')
        \<and> \<not> success r \<and> test_message r = ''Connection failed: ECONNABORTED'')
   \<and> shd (probe_replies startWorld) = Replied (okResponse [])
   \<and> (\<exists>r w'. testConnection defaultEndpoint startWorld = (Inr r, w') \<and> success r \<and> test_status r = Some 200)"
proof -
  let ?w = "startWorld\<lparr>probe_replies := sconst (Threw timeoutError)\<rparr>"
  have a: "shd (probe_replies ?w) = Threw timeoutError"
    by simp
  have b: "''Connection failed: '' @ render (or_else (error_code timeoutError) (error_message timeoutError))
     = ''Connection failed: ECONNABORTED''"
    by (simp add: timeoutError_def render_def or_else_def truthy_def error_code_def error_message_def)
  from testConnection_never_throws [of defaultEndpoint ?w]
  obtain r w' where "testConnection defaultEndpoint ?w = (Inr r, w')"
    and "\<forall>e. shd (probe_replies ?w) = Threw e \<longrightarrow>
           \<not> success r \<and> test_status r = None
           \<and> test_message r = ''Connection failed: '' @ render (or_else (error_code e) (error_message e))"
    by blast
  with a b have 1: "\<exists>r w'. testConnection defaultEndpoint ?w = (Inr r, w')
        \<and> \<not> success r \<and> test_message r = ''Connection failed: ECONNABORTED''"
    by auto
  have c: "shd (probe_replies startWorld) = Replied (okResponse [])"
    by (simp add: startWorld_def)
  have d: "status (okResponse []) = 200" by (simp add: okResponse_def)
  from testConnection_never_throws [of defaultEndpoint startWorld]
  obtain r2 w2 where "testConnection defaultEndpoint startWorld = (Inr r2, w2)"
    and "\<forall>resp. shd (probe_replies startWorld) = Replied resp \<longrightarrow>
           success r2 = (status resp < 400) \<and> test_status r2 = Some (status resp)"
    by blast
  with c d have 2: "\<exists>r w'. testConnection defaultEndpoint startWorld = (Inr r, w') \<and> success r \<and> test_status r = Some 200"
    by auto
  from a 1 c 2 show ?thesis by blast
qed

lemma checkApiHealth_cached:
  assumes "shd (clock w) - lastApiCheck w < API_HEALTH_CHECK_INTERVAL"
  shows "checkApiHealth endpoint w =
     (Inr \<lparr>isHealthy = isApiHealthy w, health_message = None\<rparr>, w\<lparr>clock := stl (clock w)\<rparr>)"
  using assms by (simp add: checkApiHealth_def Date_now_def)

lemma checkApiHealth_checks:
  assumes "\<not> shd (clock w) - lastApiCheck w < API_HEALTH_CHECK_INTERVAL"
  shows "\<exists>msg. checkApiHealth endpoint w =
     (Inr \<lparr>isHealthy = (\<exists>resp. shd (health_replies w) = Replied resp \<and> status resp = 200), health_message = msg\<rparr>,
      w\<lparr>clock := stl (clock w), lastApiCheck := shd (clock w), health_replies := stl (health_replies w),
        trace := trace w @ [HealthGet (healthCheckUrl endpoint)],
        isApiHealthy := (\<exists>resp. shd (health_replies w) = Replied resp \<and> status resp = 200)\<rparr>)"
proof (cases "shd (health_replies w)")
  case (Replied resp)
  with assms show ?thesis
    by (simp add: checkApiHealth_def checkApiHealth_try_def checkApiHealth_catch_def Date_now_def
        axios_get_def settle_def emit_def Let_def)
next
  case (Threw e)
  with assms show ?thesis
    by (simp add: checkApiHealth_def checkApiHealth_try_def checkApiHealth_catch_def Date_now_def
        axios_get_def settle_def emit_def Let_def)
qed

text \<open>
  C8. A call of the health check less than the caching window (five minutes) after
  the last actual check returns the cached state and makes no network call. A call
  outside the window makes one \<^verbatim>\<open>GET\<close> and stamps \<^verbatim>\<open>lastApiCheck\<close> with the current time,
  whether the service answers 200, answers another status or the request fails; the
  state is healthy exactly when the answer is a 200. So of three calls, the first
  outside the window, the second inside the window the first opened, and the third
  outside it, the first and the third make a network call and the second makes none.
\<close>

theorem health_check_is_cached_for_the_window:
  "(shd (clock w) - lastApiCheck w < API_HEALTH_CHECK_INTERVAL \<longrightarrow>
      checkApiHealth endpoint w =
        (Inr \<lparr>isHealthy = isApiHealthy w, health_message = None\<rparr>, w\<lparr>clock := stl (clock w)\<rparr>))
   \<and> (\<not> shd (clock w) - lastApiCheck w < API_HEALTH_CHECK_INTERVAL \<longrightarrow>
      (\<exists>r w'. checkApiHealth endpoint w = (Inr r, w')
         \<and> lastApiCheck w' = shd (clock w)
         \<and> trace w' = trace w @ [HealthGet (healthCheckUrl endpoint)]
         \<and> isApiHealthy w' = isHealthy r
         \<and> isHealthy r = (\<exists>resp. shd (health_replies w) = Replied resp \<and> status resp = 200)))
   \<and> (\<forall>t1 t2 t3 rest.
        clock w = t1 ## t2 ## t3 ## rest
        \<and> \<not> t1 - lastApiCheck w < API_HEALTH_CHECK_INTERVAL
        \<and> t2 - t1 < API_HEALTH_CHECK_INTERVAL
        \<and> \<not> t3 - t1 < API_HEALTH_CHECK_INTERVAL \<longrightarrow>
        (\<exists>r1 w1 r2 w2 r3 w3.
           checkApiHealth endpoint w = (r1, w1)
           \<and> checkApiHealth endpoint w1 = (r2, w2)
           \<and> checkApiHealth endpoint w2 = (r3, w3)
           \<and> r2 = Inr \<lparr>isHealthy = isApiHealthy w1, health_message = None\<rparr>
           \<and> network_calls (trace w1) = network_calls (trace w) + 1
           \<and> network_calls (trace w2) = network_calls (trace w) + 1
           \<and> network_calls (trace w3) = network_calls (trace w) + 2
           \<and> lastApiCheck w1 = t1 \<and> lastApiCheck w2 = t1 \<and> lastApiCheck w3 = t3))"
proof (intro conjI impI allI)
  assume "shd (clock w) - lastApiCheck w < API_HEALTH_CHECK_INTERVAL"
  then show "checkApiHealth endpoint w =
        (Inr \<lparr>isHealthy = isApiHealthy w, health_message = None\<rparr>, w\<lparr>clock := stl (clock w)\<rparr>)"
    by (rule checkApiHealth_cached)
next
  assume "\<not> shd (clock w) - lastApiCheck w < API_HEALTH_CHECK_INTERVAL"
  from checkApiHealth_checks [OF this, of endpoint]
  show "\<exists>r w'. checkApiHealth endpoint w = (Inr r, w')
         \<and> lastApiCheck w' = shd (clock w)
         \<and> trace w' = trace w @ [HealthGet (healthCheckUrl endpoint)]
         \<and> isApiHealthy w' = isHealthy r
         \<and> isHealthy r = (\<exists>resp. shd (health_replies w) = Replied resp \<and> status resp = 200)"
    by auto
next
  fix t1 t2 t3 rest
  assume a: "clock w = t1 ## t2 ## t3 ## rest
        \<and> \<not> t1 - lastApiCheck w < API_HEALTH_CHECK_INTERVAL
        \<and> t2 - t1 < API_HEALTH_CHECK_INTERVAL
        \<and> \<not> t3 - t1 < API_HEALTH_CHECK_INTERVAL"
  then have 1: "\<not> shd (clock w) - lastApiCheck w < API_HEALTH_CHECK_INTERVAL" by simp
  from checkApiHealth_checks [OF 1, of endpoint] obtain r1 w1 where
    c1: "checkApiHealth endpoint w = (r1, w1)" and
    w1: "clock w1 = t2 ## t3 ## rest" "lastApiCheck w1 = t1" "trace w1 = trace w @ [HealthGet (healthCheckUrl endpoint)]"
    using a by auto
  from w1 a have 2: "shd (clock w1) - lastApiCheck w1 < API_HEALTH_CHECK_INTERVAL" by simp
  define w2 where "w2 = w1\<lparr>clock := stl (clock w1)\<rparr>"
  from checkApiHealth_cached [OF 2, of endpoint]
  have c2: "checkApiHealth endpoint w1 = (Inr \<lparr>isHealthy = isApiHealthy w1, health_message = None\<rparr>, w2)"
    by (simp add: w2_def)
  have w2: "clock w2 = t3 ## rest" "lastApiCheck w2 = t1" "trace w2 = trace w1"
    using w1 by (simp_all add: w2_def)
  from w2 a have 3: "\<not> shd (clock w2) - lastApiCheck w2 < API_HEALTH_CHECK_INTERVAL" by simp
  from checkApiHealth_checks [OF 3, of endpoint] obtain r3 w3 where
    c3: "checkApiHealth endpoint w2 = (r3, w3)" and
    w3: "lastApiCheck w3 = t3" "trace w3 = trace w2 @ [HealthGet (healthCheckUrl endpoint)]"
    using w2 by auto
  from c1 c2 c3 w1 w2 w3
  show "\<exists>r1 w1 r2 w2 r3 w3.
           checkApiHealth endpoint w = (r1, w1)
           \<and> checkApiHealth endpoint w1 = (r2, w2)
           \<and> checkApiHealth endpoint w2 = (r3, w3)
           \<and> r2 = Inr \<lparr>isHealthy = isApiHealthy w1, health_message = None\<rparr>
           \<and> network_calls (trace w1) = network_calls (trace w) + 1
           \<and> network_calls (trace w2) = network_calls (trace w) + 1
           \<and> network_calls (trace w3) = network_calls (trace w) + 2
           \<and> lastApiCheck w1 = t1 \<and> lastApiCheck w2 = t1 \<and> lastApiCheck w3 = t3"
    by simp
qed


theorem health_check_is_cached_for_the_window_witness:
  "clock (startWorld\<lparr>clock := 1700000000000 ## 1700000001000 ## 1700000300000 ## sconst 1700000300000\<rparr>)
     = 1700000000000 ## 1700000001000 ## 1700000300000 ## sconst 1700000300000
   \<and> \<not> 1700000000000 - lastApiCheck startWorld < API_HEALTH_CHECK_INTERVAL
   \<and> (1700000001000 :: int) - 1700000000000 < API_HEALTH_CHECK_INTERVAL
   \<and> \<not> (1700000300000 :: int) - 1700000000000 < API_HEALTH_CHECK_INTERVAL
   \<and> (\<exists>r1 w1 r2 w2 r3 w3.
         checkApiHealth defaultEndpoint
           (startWorld\<lparr>clock := 1700000000000 ## 1700000001000 ## 1700000300000 ## sconst 1700000300000\<rparr>) = (r1, w1)
         \<and> checkApiHealth defaultEndpoint w1 = (r2, w2)
         \<and> checkApiHealth defaultEndpoint w2 = (r3, w3)
         \<and> network_calls (trace w1) = 1 \<and> network_calls (trace w2) = 1 \<and> network_calls (trace w3) = 2
         \<and> lastApiCheck w3 = 1700000300000)
   \<and> shd (clock warmWorld) - lastApiCheck warmWorld < API_HEALTH_CHECK_INTERVAL
   \<and> checkApiHealth defaultEndpoint warmWorld =
        (Inr \<lparr>isHealthy = True, health_message = None\<rparr>, warmWorld\<lparr>clock := stl (clock warmWorld)\<rparr>)
   \<and> \<not> shd (clock startWorld) - lastApiCheck startWorld < API_HEALTH_CHECK_INTERVAL
   \<and> (\<exists>r w'. checkApiHealth defaultEndpoint startWorld = (Inr r, w') \<and> lastApiCheck w' = 1700000000000
         \<and> trace w' = [HealthGet healthEndpoint] \<and> isHealthy r)"
proof -
  let ?w = "startWorld\<lparr>clock := 1700000000000 ## 1700000001000 ## 1700000300000 ## sconst 1700000300000\<rparr>"
  have a: "clock ?w = 1700000000000 ## 1700000001000 ## 1700000300000 ## sconst 1700000300000
     \<and> \<not> 1700000000000 - lastApiCheck ?w < API_HEALTH_CHECK_INTERVAL
     \<and> (1700000001000 :: int) - 1700000000000 < API_HEALTH_CHECK_INTERVAL
     \<and> \<not> (1700000300000 :: int) - 1700000000000 < API_HEALTH_CHECK_INTERVAL"
    by (simp add: startWorld_def API_HEALTH_CHECK_INTERVAL_def)
  have t: "trace ?w = []" by (simp add: startWorld_def)
  from health_check_is_cached_for_the_window [of ?w defaultEndpoint] a
  have "\<exists>r1 w1 r2 w2 r3 w3.
           checkApiHealth defaultEndpoint ?w = (r1, w1)
           \<and> checkApiHealth defaultEndpoint w1 = (r2, w2)
           \<and> checkApiHealth defaultEndpoint w2 = (r3, w3)
           \<and> r2 = Inr \<lparr>isHealthy = isApiHealthy w1, health_message = None\<rparr>
           \<and> network_calls (trace w1) = network_calls (trace ?w) + 1
           \<and> network_calls (trace w2) = network_calls (trace ?w) + 1
           \<and> network_calls (trace w3) = network_calls (trace ?w) + 2
           \<and> lastApiCheck w1 = 1700000000000 \<and> lastApiCheck w2 = 1700000000000
           \<and> lastApiCheck w3 = 1700000300000"
    by blast
  with t have 1: "\<exists>r1 w1 r2 w2 r3 w3.
         checkApiHealth defaultEndpoint ?w = (r1, w1)
         \<and> checkApiHealth defaultEndpoint w1 = (r2, w2)
         \<and> checkApiHealth defaultEndpoint w2 = (r3, w3)
         \<and> network_calls (trace w1) = 1 \<and> network_calls (trace w2) = 1 \<and> network_calls (trace w3) = 2
         \<and> lastApiCheck w3 = 1700000300000"
    by auto
  have b: "shd (clock warmWorld) - lastApiCheck warmWorld < API_HEALTH_CHECK_INTERVAL"
    by (simp add: warmWorld_def startWorld_def API_HEALTH_CHECK_INTERVAL_def)
  have bw: "isApiHealthy warmWorld = True" by (simp add: warmWorld_def startWorld_def)
  from health_check_is_cached_for_the_window [of warmWorld defaultEndpoint] b bw
  have 2: "checkApiHealth defaultEndpoint warmWorld =
        (Inr \<lparr>isHealthy = True, health_message = None\<rparr>, warmWorld\<lparr>clock := stl (clock warmWorld)\<rparr>)"
    by simp
  have c: "\<not> shd (clock startWorld) - lastApiCheck startWorld < API_HEALTH_CHECK_INTERVAL"
    by (simp add: startWorld_def API_HEALTH_CHECK_INTERVAL_def)
  have cw: "shd (clock startWorld) = 1700000000000" "trace startWorld = []"
    "healthCheckUrl defaultEndpoint = healthEndpoint"
    "\<exists>resp. shd (health_replies startWorld) = Replied resp \<and> status resp = 200"
    by (simp_all add: startWorld_def healthCheckUrl_def defaultEndpoint_def healthEndpoint_def okResponse_def)
  from health_check_is_cached_for_the_window [of startWorld defaultEndpoint] c
  obtain r w' where "checkApiHealth defaultEndpoint startWorld = (Inr r, w')"
    "lastApiCheck w' = shd (clock startWorld)"
    "trace w' = trace startWorld @ [HealthGet (healthCheckUrl defaultEndpoint)]"
    "isHealthy r = (\<exists>resp. shd (health_replies startWorld) = Replied resp \<and> status resp = 200)"
    by blast
  with cw have 3: "\<exists>r w'. checkApiHealth defaultEndpoint startWorld = (Inr r, w') \<and> lastApiCheck w' = 1700000000000
         \<and> trace w' = [HealthGet healthEndpoint] \<and> isHealthy r"
    by auto
  from a have a': "clock ?w = 1700000000000 ## 1700000001000 ## 1700000300000 ## sconst 1700000300000
     \<and> \<not> 1700000000000 - lastApiCheck startWorld < API_HEALTH_CHECK_INTERVAL
     \<and> (1700000001000 :: int) - 1700000000000 < API_HEALTH_CHECK_INTERVAL
     \<and> \<not> (1700000300000 :: int) - 1700000000000 < API_HEALTH_CHECK_INTERVAL"
    by (simp add: startWorld_def)
  from a' 1 b 2 c 3 show ?thesis by blast
qed

section \<open>Properties of the orchestrator: what one activation does\<close>

lemma posts_append [simp]: "posts (xs @ ys) = posts xs + posts ys"
  by (induction xs rule: posts.induct) auto

lemma sleeps_append [simp]: "sleeps (xs @ ys) = sleeps xs @ sleeps ys"
  by (induction xs rule: sleeps.induct) auto

lemma budgets_append [simp]: "budgets (xs @ ys) = budgets xs @ budgets ys"
  by (induction xs rule: budgets.induct) auto

lemma checkApiHealth_frame:
  assumes "checkApiHealth endpoint w = (r, w')"
  shows "(\<exists>hc. r = Inr hc) \<and> prompts w' = prompts w \<and> post_replies w' = post_replies w
     \<and> apiEndpoint w' = apiEndpoint w \<and> randoms w' = randoms w
     \<and> (trace w' = trace w \<or> trace w' = trace w @ [HealthGet (healthCheckUrl endpoint)])"
proof (cases "shd (clock w) - lastApiCheck w < API_HEALTH_CHECK_INTERVAL")
  case True
  from checkApiHealth_cached [OF True, of endpoint] assms show ?thesis by auto
next
  case False
  from checkApiHealth_checks [OF False, of endpoint] assms show ?thesis by auto
qed

lemma testConnection_frame:
  assumes "testConnection url w = (r, w')"
  shows "(\<exists>c. r = Inr c) \<and> prompts w' = prompts w \<and> post_replies w' = post_replies w
     \<and> apiEndpoint w' = apiEndpoint w \<and> randoms w' = randoms w
     \<and> trace w' = trace w @ [ProbeHead url]"
  using assms
  by (auto simp: testConnection_def testConnection_try_def testConnection_catch_def Let_def
      Date_now_def axios_head_def emit_def split: prod.splits sum.splits)

lemma showErrorMessage_frame:
  assumes "showErrorMessage w = (r, w')"
  shows "r = shd (prompts w) \<and> prompts w' = stl (prompts w) \<and> post_replies w' = post_replies w
     \<and> apiEndpoint w' = apiEndpoint w \<and> randoms w' = randoms w \<and> trace w' = trace w @ [AskUser]"
  using assms by (auto simp: showErrorMessage_def emit_def)

lemma health_gate_frame:
  assumes "health_gate w = (g, w')"
  shows "quiet w w' \<and> (g = CheckAgain \<longrightarrow> shd (prompts w) = Some ''Check Again'')
     \<and> (\<forall>e. g = Stop e \<longrightarrow> (\<exists>m. e = Error m))"
proof -
  obtain r w1 where c: "checkApiHealth (apiEndpoint w) w = (r, w1)" by force
  from checkApiHealth_frame [OF c] obtain hc where hc: "r = Inr hc"
    and f1: "prompts w1 = prompts w" "post_replies w1 = post_replies w" "apiEndpoint w1 = apiEndpoint w"
      "randoms w1 = randoms w"
      "trace w1 = trace w \<or> trace w1 = trace w @ [HealthGet (healthCheckUrl (apiEndpoint w))]"
    by blast
  from f1 have q1: "quiet w w1" by (auto simp: quiet_def)
  show ?thesis
  proof (cases "isHealthy hc")
    case True
    with c hc assms have "g = Proceed" "w' = w1" by (simp_all add: health_gate_def)
    with q1 show ?thesis by simp
  next
    case False
    obtain r2 w2 where t: "testConnection (apiEndpoint w1) w1 = (r2, w2)" by force
    from testConnection_frame [OF t] obtain ct where ct: "r2 = Inr ct"
      and f2: "prompts w2 = prompts w1" "post_replies w2 = post_replies w1" "apiEndpoint w2 = apiEndpoint w1"
        "randoms w2 = randoms w1" "trace w2 = trace w1 @ [ProbeHead (apiEndpoint w1)]"
      by blast
    obtain r3 w3 where s: "showErrorMessage w2 = (r3, w3)" by force
    from showErrorMessage_frame [OF s] have f3: "r3 = shd (prompts w2)" "prompts w3 = stl (prompts w2)"
      "post_replies w3 = post_replies w2" "apiEndpoint w3 = apiEndpoint w2" "randoms w3 = randoms w2"
      "trace w3 = trace w2 @ [AskUser]"
      by simp_all
    from f1 f2 f3 q1 have q3: "quiet w w3" "quiet w (w3\<lparr>lastApiCheck := 0\<rparr>)"
      by (auto simp: quiet_def)
    from False c hc t ct s assms
    have "(g, w') = (if r3 = Some ''Check Again'' then (CheckAgain, w3\<lparr>lastApiCheck := 0\<rparr>)
                    else if r3 = Some ''Open Network Settings''
                      then (Stop (Error ''Please check your network settings and try again.''), w3)
                    else if r3 \<noteq> Some ''Try Anyway''
                      then (Stop (Error ''Translation aborted by user''), w3)
                    else (Proceed, w3))"
      by (simp add: health_gate_def)
    with q3 f3 f2 f1 show ?thesis
      by (auto split: if_splits)
  qed
qed


lemma axios_post_frame:
  assumes "axios_post url c s t p w = (r, w')"
  shows "r = settle (\<lambda>st. st < 500) (shd (post_replies w))
     \<and> w' = emit (TranslatePost url c s t p) (w\<lparr>post_replies := stl (post_replies w)\<rparr>)"
  using assms by (auto simp: axios_post_def)

lemma request_try_frame:
  assumes "request_try c s t p w = (r, w')"
  shows "w' = emit (TranslatePost (apiEndpoint w) c s t p) (w\<lparr>post_replies := stl (post_replies w)\<rparr>)
     \<and> (\<forall>text. r = Inr text \<longrightarrow> text \<noteq> [])"
  using assms
  by (auto simp: request_try_def axios_post_def Let_def split: sum.splits if_splits)

lemma request_catch_frame:
  assumes "request_catch rc e w = (st, w')"
  shows "(\<exists>m. st = Raise (Error m) \<and> w' = w)
     \<or> (0 < rc \<and> st = Recurse (rc - 1)
          \<and> (\<exists>d. w' = setTimeout d w \<and> (d = Ms 1000 \<or> (\<exists>resp. d = retryAfter resp))))"
  using assms
  by (auto simp: request_catch_def Let_def split: exn.splits option.splits if_splits)

lemma translate_catch_Error:
  "translate_catch rc (Error m) w = (Raise (Error (''Translation failed: '' @ m)), w)"
  by (simp add: translate_catch_def)

lemma delayed_setTimeout:
  "attempted w w2 \<Longrightarrow> d = Ms 1000 \<or> (\<exists>resp. d = retryAfter resp) \<Longrightarrow> delayed w (setTimeout d w2)"
  by (auto simp: attempted_def delayed_def setTimeout_def emit_def)

lemma translate_try_cases:
  assumes "translate_try c s t p rc w = (st, w')"
  shows "(\<exists>m. st = Raise (Error m) \<and> (quiet w w' \<or> attempted w w'))
     \<or> (st = Recurse rc \<and> shd (prompts w) = Some ''Check Again'' \<and> quiet w w')
     \<or> (0 < rc \<and> st = Recurse (rc - 1) \<and> delayed w w')
     \<or> (\<exists>text. st = Return text \<and> text \<noteq> [] \<and> attempted w w')"
proof -
  obtain g w1 where g: "health_gate w = (g, w1)" by force
  from health_gate_frame [OF g] have q: "quiet w w1"
    and ca: "g = CheckAgain \<longrightarrow> shd (prompts w) = Some ''Check Again''"
    and st: "\<forall>e. g = Stop e \<longrightarrow> (\<exists>m. e = Error m)"
    by simp_all
  show ?thesis
  proof (cases g)
    case (Stop e)
    with st obtain m where "e = Error m" by blast
    with Stop g assms have "st = Raise (Error m)" "w' = w1" by (simp_all add: translate_try_def)
    with q show ?thesis by blast
  next
    case CheckAgain
    with g assms have "st = Recurse rc" "w' = w1" by (simp_all add: translate_try_def)
    with q ca CheckAgain show ?thesis by blast
  next
    case Proceed
    show ?thesis
    proof (cases "length c > MAX_CODE_LENGTH \<or> \<not> isLanguagePairSupported s t")
      case True
      with Proceed g assms have "(\<exists>m. st = Raise (Error m)) \<and> w' = w1"
        by (auto simp: translate_try_def split: if_splits)
      with q show ?thesis by blast
    next
      case False
      obtain r w2 where r: "request_try c s t p w1 = (r, w2)" by force
      from request_try_frame [OF r]
      have w2: "w2 = emit (TranslatePost (apiEndpoint w1) c s t p) (w1\<lparr>post_replies := stl (post_replies w1)\<rparr>)"
        and ne: "\<forall>text. r = Inr text \<longrightarrow> text \<noteq> []"
        by simp_all
      from w2 q have a2: "attempted w w2" by (simp add: attempted_def quiet_def emit_def)
      show ?thesis
      proof (cases r)
        case (Inr tx)
        with False Proceed g r assms have "st = Return tx" "w' = w2" by (simp_all add: translate_try_def)
        with Inr ne a2 show ?thesis by blast
      next
        case (Inl e)
        with False Proceed g r assms have rc: "request_catch rc e w2 = (st, w')"
          by (simp add: translate_try_def)
        from request_catch_frame [OF rc]
        consider m where "st = Raise (Error m)" "w' = w2"
          | d where "0 < rc" "st = Recurse (rc - 1)" "w' = setTimeout d w2"
              "d = Ms 1000 \<or> (\<exists>resp. d = retryAfter resp)"
          by blast
        then show ?thesis
        proof cases
          case 1
          with a2 show ?thesis by blast
        next
          case 2
          from delayed_setTimeout [OF a2 2(4)] 2 show ?thesis by blast
        qed
      qed
    qed
  qed
qed

lemma trace_log_frame:
  "quiet (emit (LogRequest rc) w) w' \<Longrightarrow> posts (trace w') = posts (trace w) \<and> sleeps (trace w') = sleeps (trace w)
     \<and> budgets (trace w') = budgets (trace w) @ [rc] \<and> randoms w' = randoms w \<and> apiEndpoint w' = apiEndpoint w
     \<and> post_replies w' = post_replies w
     \<and> (prompts w' = prompts w \<or> prompts w' = stl (prompts w))"
  by (auto simp: quiet_def emit_def)

lemma translateCode_body_cases:
  assumes "translateCode_body c s t p rc w = (st, w')"
  shows "budgets (trace w') = budgets (trace w) @ [rc] \<and> randoms w' = randoms w \<and> apiEndpoint w' = apiEndpoint w
     \<and> (prompts w' = prompts w \<or> prompts w' = stl (prompts w))
     \<and> ((\<exists>m. st = Raise (Error m) \<and> sleeps (trace w') = sleeps (trace w) \<and> posts (trace w') \<le> Suc (posts (trace w)))
        \<or> (st = Recurse rc \<and> shd (prompts w) = Some ''Check Again'' \<and> sleeps (trace w') = sleeps (trace w)
              \<and> posts (trace w') = posts (trace w))
        \<or> (0 < rc \<and> st = Recurse (rc - 1)
              \<and> (\<exists>d. sleeps (trace w') = sleeps (trace w) @ [d] \<and> (d = Ms 1000 \<or> (\<exists>resp. d = retryAfter resp)))
              \<and> posts (trace w') = Suc (posts (trace w)))
        \<or> (\<exists>text. st = Return text \<and> text \<noteq> [] \<and> sleeps (trace w') = sleeps (trace w)
              \<and> posts (trace w') = Suc (posts (trace w))))"
proof -
  let ?w0 = "emit (LogRequest rc) w"
  obtain st1 w1 where t: "translate_try c s t p rc ?w0 = (st1, w1)" by force
  have e: "posts (trace ?w0) = posts (trace w)" "sleeps (trace ?w0) = sleeps (trace w)"
    "budgets (trace ?w0) = budgets (trace w) @ [rc]" "randoms ?w0 = randoms w" "apiEndpoint ?w0 = apiEndpoint w"
    "prompts ?w0 = prompts w"
    by (simp_all add: emit_def)
  from translate_try_cases [OF t]
  consider (raise) m where "st1 = Raise (Error m)" "quiet ?w0 w1 \<or> attempted ?w0 w1"
    | (again) "st1 = Recurse rc" "shd (prompts ?w0) = Some ''Check Again''" "quiet ?w0 w1"
    | (retry) "0 < rc" "st1 = Recurse (rc - 1)" "delayed ?w0 w1"
    | (return) tx where "st1 = Return tx" "tx \<noteq> []" "attempted ?w0 w1"
    by blast
  then show ?thesis
  proof cases
    case raise
    with t assms have "st = Raise (Error (''Translation failed: '' @ m))" "w' = w1"
      by (simp_all add: translateCode_body_def translate_catch_Error)
    with raise(2) e show ?thesis by (auto simp: quiet_def attempted_def)
  next
    case again
    with t assms have "st = Recurse rc" "w' = w1" by (simp_all add: translateCode_body_def)
    with again e show ?thesis by (auto simp: quiet_def)
  next
    case retry
    with t assms have "st = Recurse (rc - 1)" "w' = w1" by (simp_all add: translateCode_body_def)
    with retry e show ?thesis by (auto simp: delayed_def)
  next
    case return
    with t assms have "st = Return tx" "w' = w1" by (simp_all add: translateCode_body_def)
    with return e show ?thesis by (auto simp: attempted_def)
  qed
qed


lemma translateCode_fuel_mono:
  "translateCode fuel c s t p rc w = Some r \<Longrightarrow> translateCode (fuel + k) c s t p rc w = Some r"
proof (induction fuel arbitrary: rc w)
  case 0
  then show ?case by simp
next
  case (Suc fuel)
  obtain st w1 where b: "translateCode_body c s t p rc w = (st, w1)" by force
  show ?case
  proof (cases st)
    case (Recurse n)
    with b Suc.prems have "translateCode fuel c s t p n w1 = Some r" by simp
    from Suc.IH [OF this] b Recurse show ?thesis by simp
  qed (use b Suc.prems in simp_all)
qed

lemma translateCode_run:
  "translateCode fuel c s t p rc w = Some (res, w') \<Longrightarrow>
     length (sleeps (trace w')) \<le> length (sleeps (trace w)) + nat rc
     \<and> posts (trace w') \<le> posts (trace w) + nat rc + 1
     \<and> randoms w' = randoms w
     \<and> (\<forall>tx. res = Inr tx \<longrightarrow> tx \<noteq> [])
     \<and> (\<forall>e. res = Inl e \<longrightarrow> (\<exists>m. e = Error m))"
proof (induction fuel arbitrary: rc w)
  case 0
  then show ?case by simp
next
  case (Suc fuel)
  obtain st w1 where b: "translateCode_body c s t p rc w = (st, w1)" by force
  from translateCode_body_cases [OF b]
  have r: "randoms w1 = randoms w" by simp
  from translateCode_body_cases [OF b]
  consider (raise) m where "st = Raise (Error m)" "sleeps (trace w1) = sleeps (trace w)"
        "posts (trace w1) \<le> Suc (posts (trace w))"
    | (again) "st = Recurse rc" "sleeps (trace w1) = sleeps (trace w)" "posts (trace w1) = posts (trace w)"
    | (retry) d where "0 < rc" "st = Recurse (rc - 1)" "sleeps (trace w1) = sleeps (trace w) @ [d]"
        "posts (trace w1) = Suc (posts (trace w))"
    | (return) tx where "st = Return tx" "tx \<noteq> []" "sleeps (trace w1) = sleeps (trace w)"
        "posts (trace w1) = Suc (posts (trace w))"
    by blast
  then show ?case
  proof cases
    case raise
    with b Suc.prems have "res = Inl (Error m)" "w' = w1" by simp_all
    with raise r show ?thesis by simp
  next
    case again
    with b Suc.prems have "translateCode fuel c s t p rc w1 = Some (res, w')" by simp
    from Suc.IH [OF this] again r show ?thesis by simp
  next
    case retry
    with b Suc.prems have "translateCode fuel c s t p (rc - 1) w1 = Some (res, w')" by simp
    from Suc.IH [OF this] retry r show ?thesis by auto
  next
    case return
    with b Suc.prems have "res = Inr tx" "w' = w1" by simp_all
    with return r show ?thesis by simp
  qed
qed

lemma countdown_step:
  "rc # map (\<lambda>i. rc - 1 - int i) [0..<Suc k] = map (\<lambda>i. rc - int i) [0..<Suc (Suc k)]"
proof -
  have "map (\<lambda>i. rc - int i) [0..<Suc (Suc k)] = (rc - int 0) # map (\<lambda>i. rc - int (Suc i)) [0..<Suc k]"
    by (rule map_upt_Suc)
  also have "map (\<lambda>i. rc - int (Suc i)) [0..<Suc k] = map (\<lambda>i. rc - 1 - int i) [0..<Suc k]"
    by (rule map_cong) simp_all
  finally show ?thesis by simp
qed

lemma translateCode_terminates:
  assumes "Some ''Check Again'' \<notin> sset (prompts w)"
  shows "\<exists>res w' k. translateCode (Suc (nat rc)) c s t p rc w = Some (res, w')
     \<and> k \<le> nat rc
     \<and> budgets (trace w') = budgets (trace w) @ map (\<lambda>i. rc - int i) [0..<Suc k]
     \<and> length (sleeps (trace w')) = length (sleeps (trace w)) + k"
  using assms
proof (induction n \<equiv> "nat rc" arbitrary: rc w)
  case 0
  obtain st w1 where b: "translateCode_body c s t p rc w = (st, w1)" by force
  from 0 have rc: "\<not> 0 < rc" by simp
  from 0 have nc: "shd (prompts w) \<noteq> Some ''Check Again''" by (metis shd_sset)
  from translateCode_body_cases [OF b] rc nc
  have bud: "budgets (trace w1) = budgets (trace w) @ [rc]" and sl: "sleeps (trace w1) = sleeps (trace w)"
    and st: "(\<exists>m. st = Raise (Error m)) \<or> (\<exists>tx. st = Return tx)"
    by auto
  from st b obtain res where "translateCode (Suc (nat rc)) c s t p rc w = Some (res, w1)" by auto
  with bud sl have "translateCode (Suc (nat rc)) c s t p rc w = Some (res, w1) \<and> 0 \<le> nat rc
     \<and> budgets (trace w1) = budgets (trace w) @ map (\<lambda>i. rc - int i) [0..<Suc 0]
     \<and> length (sleeps (trace w1)) = length (sleeps (trace w)) + 0" by simp
  then show ?case by blast
next
  case (Suc n)
  obtain st w1 where b: "translateCode_body c s t p rc w = (st, w1)" by force
  from Suc.prems have nc: "shd (prompts w) \<noteq> Some ''Check Again''" by (metis shd_sset)
  from translateCode_body_cases [OF b]
  have bud: "budgets (trace w1) = budgets (trace w) @ [rc]"
    and pr: "prompts w1 = prompts w \<or> prompts w1 = stl (prompts w)"
    by simp_all
  from pr Suc.prems have nc1: "Some ''Check Again'' \<notin> sset (prompts w1)"
    by (auto dest: stl_sset)
  from translateCode_body_cases [OF b] nc
  consider (stop) "sleeps (trace w1) = sleeps (trace w)" "(\<exists>m. st = Raise (Error m)) \<or> (\<exists>tx. st = Return tx)"
    | (retry) d where "0 < rc" "st = Recurse (rc - 1)" "sleeps (trace w1) = sleeps (trace w) @ [d]"
    by auto
  then show ?case
  proof cases
    case stop
    from stop(2) b obtain res where "translateCode (Suc (nat rc)) c s t p rc w = Some (res, w1)" by auto
    with bud stop(1) have "translateCode (Suc (nat rc)) c s t p rc w = Some (res, w1) \<and> 0 \<le> nat rc
       \<and> budgets (trace w1) = budgets (trace w) @ map (\<lambda>i. rc - int i) [0..<Suc 0]
       \<and> length (sleeps (trace w1)) = length (sleeps (trace w)) + 0" by simp
    then show ?thesis by blast
  next
    case retry
    from Suc.hyps(2) have n: "n = nat (rc - 1)" by simp
    from Suc.hyps(1) [OF n nc1] obtain res w' k where
      run: "translateCode (Suc (nat (rc - 1))) c s t p (rc - 1) w1 = Some (res, w')"
      and k: "k \<le> nat (rc - 1)"
      and bk: "budgets (trace w') = budgets (trace w1) @ map (\<lambda>i. rc - 1 - int i) [0..<Suc k]"
      and sk: "length (sleeps (trace w')) = length (sleeps (trace w1)) + k"
      by blast
    from retry(1) have f: "Suc (nat (rc - 1)) = nat rc" by simp
    from run b retry(2) f have 1: "translateCode (Suc (nat rc)) c s t p rc w = Some (res, w')" by simp
    from k retry(1) have 2: "Suc k \<le> nat rc" by simp
    from bk bud have 3: "budgets (trace w') = budgets (trace w) @ map (\<lambda>i. rc - int i) [0..<Suc (Suc k)]"
      by (simp only: append_assoc append_Cons append_Nil countdown_step)
    from sk retry(3) have 4: "length (sleeps (trace w')) = length (sleeps (trace w)) + Suc k" by simp
    from 1 2 3 4 show ?thesis by blast
  qed
qed


section \<open>Properties of the orchestrator: admission and size\<close>

lemmas scenario_defs = defaultEndpoint_def healthEndpoint_def okResponse_def timeoutError_def startWorld_def
  warmWorld_def tooManyRequests_def canceledError_def rateLimitedWorld_def timeoutOnceWorld_def
  abortedOnceWorld_def alwaysTimeoutWorld_def checkAgainOnceWorld_def stuckWorld_def emptyPayloadWorld_def emptyFenceWorld_def
  outcome_def

lemmas model_defs = translateCode_body_def translate_try_def translate_catch_def request_try_def request_catch_def
  health_gate_def checkApiHealth_def checkApiHealth_try_def checkApiHealth_catch_def testConnection_def
  testConnection_try_def testConnection_catch_def axios_get_def axios_head_def axios_post_def settle_def
  Date_now_def emit_def showErrorMessage_def Math_random_def setTimeout_def API_HEALTH_CHECK_INTERVAL_def
  healthCheckUrl_def MAX_CODE_LENGTH_def maxRetries_def truthy_def or_else_def render_def
  normalizeTranslatedCode_def removeOpeningFence_def removeClosingFence_def trim_def LF_def isWhiteSpace_def
  isLanguagePairSupported_def SUPPORTED_LANGUAGE_PAIRS_def retryAfter_def error_code_def error_message_def


lemma blocked_body:
  assumes "length c > MAX_CODE_LENGTH \<or> \<not> isLanguagePairSupported s t"
    and "translateCode_body c s t p rc w = (st, w')"
  shows "quiet (emit (LogRequest rc) w) w' \<and> ((\<exists>m. st = Raise (Error m)) \<or> st = Recurse rc)"
proof -
  let ?w0 = "emit (LogRequest rc) w"
  obtain g w1 where g: "health_gate ?w0 = (g, w1)" by force
  from health_gate_frame [OF g] have q: "quiet ?w0 w1"
    and st: "\<forall>e. g = Stop e \<longrightarrow> (\<exists>m. e = Error m)"
    by simp_all
  show ?thesis
  proof (cases g)
    case (Stop e)
    with st obtain m where "e = Error m" by blast
    with Stop g assms(2) have "st = Raise (Error (''Translation failed: '' @ m))" "w' = w1"
      by (simp_all add: translateCode_body_def translate_try_def translate_catch_Error)
    with q show ?thesis by simp
  next
    case CheckAgain
    with g assms(2) have "st = Recurse rc" "w' = w1"
      by (simp_all add: translateCode_body_def translate_try_def)
    with q show ?thesis by simp
  next
    case Proceed
    with g assms have "(\<exists>m. st = Raise (Error m)) \<and> w' = w1"
      by (auto simp: translateCode_body_def translate_try_def translate_catch_Error split: if_splits)
    with q show ?thesis by simp
  qed
qed

lemma blocked_run:
  assumes "length c > MAX_CODE_LENGTH \<or> \<not> isLanguagePairSupported s t"
  shows "translateCode fuel c s t p rc w = Some (res, w') \<Longrightarrow>
     (\<exists>m. res = Inl (Error m)) \<and> posts (trace w') = posts (trace w) \<and> sleeps (trace w') = sleeps (trace w)"
proof (induction fuel arbitrary: w)
  case 0
  then show ?case by simp
next
  case (Suc fuel)
  obtain st w1 where b: "translateCode_body c s t p rc w = (st, w1)" by force
  from blocked_body [OF assms b] have q: "quiet (emit (LogRequest rc) w) w1"
    and st: "(\<exists>m. st = Raise (Error m)) \<or> st = Recurse rc"
    by simp_all
  from trace_log_frame [OF q] have f: "posts (trace w1) = posts (trace w)" "sleeps (trace w1) = sleeps (trace w)"
    by simp_all
  from st show ?case
  proof
    assume "\<exists>m. st = Raise (Error m)"
    then obtain m where "st = Raise (Error m)" by blast
    with b Suc.prems have "res = Inl (Error m)" "w' = w1" by simp_all
    with f show ?thesis by simp
  next
    assume "st = Recurse rc"
    with b Suc.prems have "translateCode fuel c s t p rc w1 = Some (res, w')" by simp
    from Suc.IH [OF this] f show ?thesis by simp
  qed
qed

lemma too_large_after_gate:
  assumes "health_gate (emit (LogRequest rc) w) = (Proceed, w1)" and "length c > MAX_CODE_LENGTH"
  shows "translateCode (Suc fuel) c s t p rc w =
     Some (Inl (Error ''Translation failed: Code too large for translation''), w1)"
  using assms by (simp add: translateCode_body_def translate_try_def translate_catch_Error)

lemma unsupported_after_gate:
  assumes "health_gate (emit (LogRequest rc) w) = (Proceed, w1)" and "length c \<le> MAX_CODE_LENGTH"
    and "\<not> isLanguagePairSupported s t"
  shows "translateCode (Suc fuel) c s t p rc w =
     Some (Inl (Error (''Translation failed: Translation from '' @ s @ '' to '' @ t @ '' is not supported.'')), w1)"
  using assms by (simp add: translateCode_body_def translate_try_def translate_catch_Error)

lemma answered_after_gate:
  assumes "health_gate (emit (LogRequest rc) w) = (Proceed, w1)" and "length c \<le> MAX_CODE_LENGTH"
    and "isLanguagePairSupported s t" and "shd (post_replies w) = Replied resp"
    and "200 \<le> status resp" and "status resp < 300"
  shows "\<exists>w'. posts (trace w') = Suc (posts (trace w)) \<and> sleeps (trace w') = sleeps (trace w)
     \<and> translateCode (Suc fuel) c s t p rc w =
        Some (if truthy (translated_code resp) then
                (if normalizeTranslatedCode (render (translated_code resp)) = []
                 then Inl (Error ''Translation failed: Translation failed: Received empty translation from the server'')
                 else Inr (normalizeTranslatedCode (render (translated_code resp))))
              else Inl (Error ''Translation failed: Translation failed: Invalid response format from translation service: Missing translated_code''),
              w')"
proof -
  let ?w2 = "emit (TranslatePost (apiEndpoint w1) c s t p) (w1\<lparr>post_replies := stl (post_replies w1)\<rparr>)"
  from health_gate_frame [OF assms(1)] have q: "quiet (emit (LogRequest rc) w) w1" by simp
  from trace_log_frame [OF q] have f: "posts (trace w1) = posts (trace w)" "sleeps (trace w1) = sleeps (trace w)"
    "post_replies w1 = post_replies w"
    by simp_all
  from f have t: "posts (trace ?w2) = Suc (posts (trace w))" "sleeps (trace ?w2) = sleeps (trace w)"
    by (simp_all add: emit_def)
  from f(3) assms(4) have r: "shd (post_replies w1) = Replied resp" by simp
  from assms(5,6) have v: "status resp < 500" by simp
  have "request_try c s t p w1 =
     (if truthy (translated_code resp) then
        (if normalizeTranslatedCode (render (translated_code resp)) = []
         then Inl (Error ''Received empty translation from the server'')
         else Inr (normalizeTranslatedCode (render (translated_code resp))))
      else Inl (Error ''Invalid response format from translation service: Missing translated_code''), ?w2)"
    using r v assms(5,6) by (simp add: request_try_def axios_post_def settle_def Let_def)
  with assms(1,2,3) have "translateCode (Suc fuel) c s t p rc w =
        Some (if truthy (translated_code resp) then
                (if normalizeTranslatedCode (render (translated_code resp)) = []
                 then Inl (Error ''Translation failed: Translation failed: Received empty translation from the server'')
                 else Inr (normalizeTranslatedCode (render (translated_code resp))))
              else Inl (Error ''Translation failed: Translation failed: Invalid response format from translation service: Missing translated_code''),
              ?w2)"
    by (simp add: translateCode_body_def translate_try_def translate_catch_Error request_catch_def)
  with t show ?thesis by blast
qed


text \<open>
  C1 (as amended). For a pair that is not in the table, a call that returns has
  failed, and it has sent no translate request and waited no delay. The admission
  check comes after the health check and after the size check: the health check may
  send its \<^verbatim>\<open>GET\<close> (and, when the service is unhealthy, the probe its \<^verbatim>\<open>HEAD\<close>) first,
  and once the health gate lets the call through, a text within the size ceiling is
  rejected with the unsupported-pair error, in the world the gate left.
\<close>

theorem unsupported_pair_fails_without_translate_request:
  assumes "\<not> isLanguagePairSupported sourceLang targetLang"
  shows "(\<forall>res w'. translateCode fuel code sourceLang targetLang preserveComments retryCount w = Some (res, w') \<longrightarrow>
            (\<exists>m. res = Inl (Error m)) \<and> posts (trace w') = posts (trace w) \<and> sleeps (trace w') = sleeps (trace w))
     \<and> (\<forall>w1. health_gate (emit (LogRequest retryCount) w) = (Proceed, w1) \<and> length code \<le> MAX_CODE_LENGTH \<longrightarrow>
            translateCode (Suc fuel) code sourceLang targetLang preserveComments retryCount w =
              Some (Inl (Error (''Translation failed: Translation from '' @ sourceLang @ '' to '' @ targetLang
                                @ '' is not supported.'')), w1))"
proof -
  have 1: "\<forall>res w'. translateCode fuel code sourceLang targetLang preserveComments retryCount w = Some (res, w') \<longrightarrow>
            (\<exists>m. res = Inl (Error m)) \<and> posts (trace w') = posts (trace w) \<and> sleeps (trace w') = sleeps (trace w)"
  proof (intro allI impI)
    fix res w'
    assume "translateCode fuel code sourceLang targetLang preserveComments retryCount w = Some (res, w')"
    with assms blocked_run [of code sourceLang targetLang fuel preserveComments retryCount w res w']
    show "(\<exists>m. res = Inl (Error m)) \<and> posts (trace w') = posts (trace w) \<and> sleeps (trace w') = sleeps (trace w)"
      by blast
  qed
  have 2: "\<forall>w1. health_gate (emit (LogRequest retryCount) w) = (Proceed, w1) \<and> length code \<le> MAX_CODE_LENGTH \<longrightarrow>
            translateCode (Suc fuel) code sourceLang targetLang preserveComments retryCount w =
              Some (Inl (Error (''Translation failed: Translation from '' @ sourceLang @ '' to '' @ targetLang
                                @ '' is not supported.'')), w1)"
  proof (intro allI impI)
    fix w1
    assume h: "health_gate (emit (LogRequest retryCount) w) = (Proceed, w1) \<and> length code \<le> MAX_CODE_LENGTH"
    from h have g: "health_gate (emit (LogRequest retryCount) w) = (Proceed, w1)"
      and l: "length code \<le> MAX_CODE_LENGTH"
      by simp_all
    from unsupported_after_gate [OF g l assms]
    show "translateCode (Suc fuel) code sourceLang targetLang preserveComments retryCount w =
        Some (Inl (Error (''Translation failed: Translation from '' @ sourceLang @ '' to '' @ targetLang
                          @ '' is not supported.'')), w1)" .
  qed
  from 1 2 show ?thesis by (rule conjI)
qed

theorem unsupported_pair_fails_without_translate_request_witness:
  "\<not> isLanguagePairSupported ''python'' ''cobol''
   \<and> fst (health_gate (emit (LogRequest 1) warmWorld)) = Proceed
   \<and> length ''print(1)'' \<le> MAX_CODE_LENGTH
   \<and> (\<exists>w'. translateCode (Suc 0) ''print(1)'' ''python'' ''cobol'' True 1 warmWorld =
         Some (Inl (Error ''Translation failed: Translation from python to cobol is not supported.''), w')
       \<and> posts (trace w') = posts (trace warmWorld) \<and> sleeps (trace w') = sleeps (trace warmWorld))"
proof -
  have a: "\<not> isLanguagePairSupported ''python'' ''cobol''"
    by (simp add: isLanguagePairSupported_def SUPPORTED_LANGUAGE_PAIRS_def)
  have b: "fst (health_gate (emit (LogRequest 1) warmWorld)) = Proceed"
    by (simp add: scenario_defs model_defs)
  then obtain w1 where g: "health_gate (emit (LogRequest 1) warmWorld) = (Proceed, w1)"
    by (metis prod.collapse)
  have c: "length ''print(1)'' \<le> MAX_CODE_LENGTH" by (simp add: MAX_CODE_LENGTH_def)
  from unsupported_pair_fails_without_translate_request [OF a, where fuel = 0 and code = "''print(1)''"
      and preserveComments = True and retryCount = 1 and w = warmWorld] g c
  have "translateCode (Suc 0) ''print(1)'' ''python'' ''cobol'' True 1 warmWorld =
      Some (Inl (Error (''Translation failed: Translation from '' @ ''python'' @ '' to '' @ ''cobol''
                        @ '' is not supported.'')), w1)"
    by blast
  then have run: "translateCode (Suc 0) ''print(1)'' ''python'' ''cobol'' True 1 warmWorld =
      Some (Inl (Error ''Translation failed: Translation from python to cobol is not supported.''), w1)"
    by simp
  from unsupported_pair_fails_without_translate_request [OF a, where fuel = "Suc 0" and code = "''print(1)''"
      and preserveComments = True and retryCount = 1 and w = warmWorld] run
  have "posts (trace w1) = posts (trace warmWorld) \<and> sleeps (trace w1) = sleeps (trace warmWorld)"
    by blast
  with a b c run show ?thesis by blast
qed

text \<open>
  C1, the claim as stated fails: at process start the cached health state is stale,
  so the call for the unsupported pair python to cobol sends the health-check
  \<^verbatim>\<open>GET\<close> before it is rejected.
\<close>

theorem unsupported_pair_health_get_counterexample:
  "\<not> isLanguagePairSupported ''python'' ''cobol''
   \<and> outcome (translateCode (Suc 0) ''print(1)'' ''python'' ''cobol'' True 1 startWorld) =
       Some (Inl (Error ''Translation failed: Translation from python to cobol is not supported.''),
             [LogRequest 1, HealthGet healthEndpoint])"
  by (simp add: scenario_defs model_defs)

text \<open>
  C2 (as amended). For a text longer than the ceiling of 10000 characters, a call that
  returns has failed, and it has sent no translate request and waited no delay (it is
  never retried). The size check comes after the health check: the health check may
  send its \<^verbatim>\<open>GET\<close> (and the probe its \<^verbatim>\<open>HEAD\<close>) first, and once the health gate lets the
  call through, the call is rejected with the code-too-large error, in the world the
  gate left.
\<close>

theorem oversized_text_fails_without_translate_request:
  assumes "length code > MAX_CODE_LENGTH"
  shows "(\<forall>res w'. translateCode fuel code sourceLang targetLang preserveComments retryCount w = Some (res, w') \<longrightarrow>
            (\<exists>m. res = Inl (Error m)) \<and> posts (trace w') = posts (trace w) \<and> sleeps (trace w') = sleeps (trace w))
     \<and> (\<forall>w1. health_gate (emit (LogRequest retryCount) w) = (Proceed, w1) \<longrightarrow>
            translateCode (Suc fuel) code sourceLang targetLang preserveComments retryCount w =
              Some (Inl (Error ''Translation failed: Code too large for translation''), w1))"
proof -
  have 1: "\<forall>res w'. translateCode fuel code sourceLang targetLang preserveComments retryCount w = Some (res, w') \<longrightarrow>
            (\<exists>m. res = Inl (Error m)) \<and> posts (trace w') = posts (trace w) \<and> sleeps (trace w') = sleeps (trace w)"
  proof (intro allI impI)
    fix res w'
    assume "translateCode fuel code sourceLang targetLang preserveComments retryCount w = Some (res, w')"
    with assms blocked_run [of code sourceLang targetLang fuel preserveComments retryCount w res w']
    show "(\<exists>m. res = Inl (Error m)) \<and> posts (trace w') = posts (trace w) \<and> sleeps (trace w') = sleeps (trace w)"
      by blast
  qed
  have 2: "\<forall>w1. health_gate (emit (LogRequest retryCount) w) = (Proceed, w1) \<longrightarrow>
            translateCode (Suc fuel) code sourceLang targetLang preserveComments retryCount w =
              Some (Inl (Error ''Translation failed: Code too large for translation''), w1)"
  proof (intro allI impI)
    fix w1
    assume g: "health_gate (emit (LogRequest retryCount) w) = (Proceed, w1)"
    from too_large_after_gate [OF g assms]
    show "translateCode (Suc fuel) code sourceLang targetLang preserveComments retryCount w =
        Some (Inl (Error ''Translation failed: Code too large for translation''), w1)" .
  qed
  from 1 2 show ?thesis by (rule conjI)
qed

theorem oversized_text_fails_without_translate_request_witness:
  "length (replicate 10001 (CHR ''x'')) > MAX_CODE_LENGTH
   \<and> fst (health_gate (emit (LogRequest 1) warmWorld)) = Proceed
   \<and> (\<exists>w'. translateCode (Suc 0) (replicate 10001 (CHR ''x'')) ''python'' ''java'' True 1 warmWorld =
         Some (Inl (Error ''Translation failed: Code too large for translation''), w')
       \<and> posts (trace w') = posts (trace warmWorld) \<and> sleeps (trace w') = sleeps (trace warmWorld))"
proof -
  have a: "length (replicate 10001 (CHR ''x'')) > MAX_CODE_LENGTH" by (simp add: MAX_CODE_LENGTH_def)
  have b: "fst (health_gate (emit (LogRequest 1) warmWorld)) = Proceed"
    by (simp add: scenario_defs model_defs)
  then obtain w1 where g: "health_gate (emit (LogRequest 1) warmWorld) = (Proceed, w1)"
    by (metis prod.collapse)
  from oversized_text_fails_without_translate_request [OF a, where fuel = 0 and sourceLang = "''python''"
      and targetLang = "''java''" and preserveComments = True and retryCount = 1 and w = warmWorld] g
  have run: "translateCode (Suc 0) (replicate 10001 (CHR ''x'')) ''python'' ''java'' True 1 warmWorld =
      Some (Inl (Error ''Translation failed: Code too large for translation''), w1)"
    by blast
  from oversized_text_fails_without_translate_request [OF a, where fuel = "Suc 0" and sourceLang = "''python''"
      and targetLang = "''java''" and preserveComments = True and retryCount = 1 and w = warmWorld] run
  have "posts (trace w1) = posts (trace warmWorld) \<and> sleeps (trace w1) = sleeps (trace warmWorld)"
    by blast
  with a b run show ?thesis by blast
qed

text \<open>
  C2, the claim as stated fails: at process start the call with a text of 10001
  characters sends the health-check \<^verbatim>\<open>GET\<close> before it is rejected.
\<close>

theorem oversized_text_health_get_counterexample:
  "length (replicate 10001 (CHR ''x'')) > MAX_CODE_LENGTH
   \<and> outcome (translateCode (Suc 0) (replicate 10001 (CHR ''x'')) ''python'' ''java'' True 1 startWorld) =
       Some (Inl (Error ''Translation failed: Code too large for translation''),
             [LogRequest 1, HealthGet healthEndpoint])"
  by (simp add: scenario_defs model_defs)


section \<open>Properties of the orchestrator: the retry budget\<close>

text \<open>
  While the health check fails and the user answers \<^verbatim>\<open>Check Again\<close>, an activation
  only starts the next one, with the same budget.
\<close>

lemma check_again_keeps_stuck:
  assumes "prompts w = sconst (Some ''Check Again'')" and "health_replies w = sconst (Threw timeoutError)"
    and "clock w = sconst 1700000000000" and "lastApiCheck w = 0"
  shows "\<exists>w'. translateCode_body c s t p rc w = (Recurse rc, w')
     \<and> prompts w' = sconst (Some ''Check Again'') \<and> health_replies w' = sconst (Threw timeoutError)
     \<and> clock w' = sconst 1700000000000 \<and> lastApiCheck w' = 0"
proof (cases "shd (probe_replies w)")
  case (Replied resp)
  with assms show ?thesis by (simp add: model_defs timeoutError_def)
next
  case (Threw e)
  with assms show ?thesis by (simp add: model_defs timeoutError_def)
qed

lemma check_again_never_returns_from:
  assumes "prompts w = sconst (Some ''Check Again'')" and "health_replies w = sconst (Threw timeoutError)"
    and "clock w = sconst 1700000000000" and "lastApiCheck w = 0"
  shows "translateCode fuel c s t p rc w = None"
  using assms
proof (induction fuel arbitrary: w)
  case 0
  then show ?case by simp
next
  case (Suc fuel)
  from check_again_keeps_stuck [OF Suc.prems, of c s t p rc] obtain w' where
    b: "translateCode_body c s t p rc w = (Recurse rc, w')"
    and k: "prompts w' = sconst (Some ''Check Again'')" "health_replies w' = sconst (Threw timeoutError)"
      "clock w' = sconst 1700000000000" "lastApiCheck w' = 0"
    by blast
  from Suc.IH [OF k] b show ?case by simp
qed

lemma check_again_never_returns:
  "\<forall>fuel. translateCode fuel ''print(1)'' ''python'' ''java'' True 1 stuckWorld = None"
  by (simp add: check_again_never_returns_from stuckWorld_def startWorld_def)

text \<open>
  C3 (as amended). Every automatic retry enters the next activation with the budget
  decremented by one, and with a budget of zero or less no retry is made: a call that
  returns has waited at most \<open>retryCount\<close> delays and sent at most \<open>retryCount + 1\<close>
  translate requests. The re-entry after \<^verbatim>\<open>Check Again\<close> keeps the budget, so termination
  depends on the user: when the user never answers \<^verbatim>\<open>Check Again\<close>, the call returns within
  \<open>retryCount + 1\<close> activations, and the budgets logged at their entries are \<open>retryCount\<close>,
  \<open>retryCount - 1\<close>, and so on, one delay between two of them.
\<close>

theorem retry_budget_bounds_the_attempts:
  "(\<forall>res w'. translateCode fuel code sourceLang targetLang preserveComments retryCount w = Some (res, w') \<longrightarrow>
       length (sleeps (trace w')) \<le> length (sleeps (trace w)) + nat retryCount
       \<and> posts (trace w') \<le> posts (trace w) + nat retryCount + 1)
   \<and> (Some ''Check Again'' \<notin> sset (prompts w) \<longrightarrow>
        (\<exists>res w' k. translateCode (Suc (nat retryCount) + extra) code sourceLang targetLang preserveComments retryCount w
                       = Some (res, w')
           \<and> k \<le> nat retryCount
           \<and> budgets (trace w') = budgets (trace w) @ map (\<lambda>i. retryCount - int i) [0..<Suc k]
           \<and> length (sleeps (trace w')) = length (sleeps (trace w)) + k))"
proof -
  have 1: "\<forall>res w'. translateCode fuel code sourceLang targetLang preserveComments retryCount w = Some (res, w') \<longrightarrow>
       length (sleeps (trace w')) \<le> length (sleeps (trace w)) + nat retryCount
       \<and> posts (trace w') \<le> posts (trace w) + nat retryCount + 1"
  proof (intro allI impI)
    fix res w'
    assume "translateCode fuel code sourceLang targetLang preserveComments retryCount w = Some (res, w')"
    from translateCode_run [OF this]
    show "length (sleeps (trace w')) \<le> length (sleeps (trace w)) + nat retryCount
       \<and> posts (trace w') \<le> posts (trace w) + nat retryCount + 1"
      by simp
  qed
  have 2: "Some ''Check Again'' \<notin> sset (prompts w) \<longrightarrow>
        (\<exists>res w' k. translateCode (Suc (nat retryCount) + extra) code sourceLang targetLang preserveComments retryCount w
                       = Some (res, w')
           \<and> k \<le> nat retryCount
           \<and> budgets (trace w') = budgets (trace w) @ map (\<lambda>i. retryCount - int i) [0..<Suc k]
           \<and> length (sleeps (trace w')) = length (sleeps (trace w)) + k)"
  proof
    assume "Some ''Check Again'' \<notin> sset (prompts w)"
    from translateCode_terminates [OF this, of retryCount code sourceLang targetLang preserveComments]
    obtain res w' k where
      r: "translateCode (Suc (nat retryCount)) code sourceLang targetLang preserveComments retryCount w = Some (res, w')"
      and k: "k \<le> nat retryCount"
        "budgets (trace w') = budgets (trace w) @ map (\<lambda>i. retryCount - int i) [0..<Suc k]"
        "length (sleeps (trace w')) = length (sleeps (trace w)) + k"
      by blast
    from translateCode_fuel_mono [OF r, of extra] k
    show "\<exists>res w' k. translateCode (Suc (nat retryCount) + extra) code sourceLang targetLang preserveComments retryCount w
                       = Some (res, w')
           \<and> k \<le> nat retryCount
           \<and> budgets (trace w') = budgets (trace w) @ map (\<lambda>i. retryCount - int i) [0..<Suc k]
           \<and> length (sleeps (trace w')) = length (sleeps (trace w)) + k"
      by blast
  qed
  from 1 2 show ?thesis by (rule conjI)
qed

theorem retry_budget_bounds_the_attempts_witness:
  "Some ''Check Again'' \<notin> sset (prompts timeoutOnceWorld)
   \<and> (\<exists>res w' k. translateCode (Suc (nat 1) + 0) ''print(1)'' ''python'' ''java'' True 1 timeoutOnceWorld = Some (res, w')
         \<and> k \<le> nat 1
         \<and> budgets (trace w') = budgets (trace timeoutOnceWorld) @ map (\<lambda>i. 1 - int i) [0..<Suc k]
         \<and> length (sleeps (trace w')) \<le> length (sleeps (trace timeoutOnceWorld)) + nat 1
         \<and> posts (trace w') \<le> posts (trace timeoutOnceWorld) + nat 1 + 1)"
proof -
  have a: "Some ''Check Again'' \<notin> sset (prompts timeoutOnceWorld)"
    by (simp add: scenario_defs)
  from retry_budget_bounds_the_attempts [where w = timeoutOnceWorld and retryCount = 1 and extra = 0
      and code = "''print(1)''" and sourceLang = "''python''" and targetLang = "''java''" and preserveComments = True] a
  obtain res w' k where
    run: "translateCode (Suc (nat 1) + 0) ''print(1)'' ''python'' ''java'' True 1 timeoutOnceWorld = Some (res, w')"
    and k: "k \<le> nat 1" "budgets (trace w') = budgets (trace timeoutOnceWorld) @ map (\<lambda>i. 1 - int i) [0..<Suc k]"
    by blast
  from retry_budget_bounds_the_attempts [where w = timeoutOnceWorld and retryCount = 1
      and fuel = "Suc (nat 1) + 0"
      and code = "''print(1)''" and sourceLang = "''python''" and targetLang = "''java''" and preserveComments = True] run
  have "length (sleeps (trace w')) \<le> length (sleeps (trace timeoutOnceWorld)) + nat 1
         \<and> posts (trace w') \<le> posts (trace timeoutOnceWorld) + nat 1 + 1"
    by blast
  with a run k show ?thesis by blast
qed

text \<open>
  C3, the claim as stated fails: the health check fails, the user answers
  \<^verbatim>\<open>Check Again\<close> and then \<^verbatim>\<open>Try Anyway\<close>; the second activation is entered with the same
  budget 1 as the first. (\<open>check_again_never_returns\<close> above: a user who always answers
  \<^verbatim>\<open>Check Again\<close> while the health check fails keeps the call from ever returning.)
\<close>

theorem check_again_keeps_the_budget_counterexample:
  "outcome (translateCode (Suc (Suc 0)) ''print(1)'' ''python'' ''java'' True 1 checkAgainOnceWorld) =
   Some (Inr ''x'',
         [LogRequest 1, HealthGet healthEndpoint, ProbeHead defaultEndpoint, AskUser,
          LogRequest 1, HealthGet healthEndpoint, ProbeHead defaultEndpoint, AskUser,
          TranslatePost defaultEndpoint ''print(1)'' ''python'' ''java'' True])"
  by (simp add: scenario_defs model_defs)


section \<open>Properties of the orchestrator: answers and retries\<close>

text \<open>
  C6 (as amended). A success always carries a text that is not empty. When the
  answer has a status from 200 to 299 and its \<^verbatim>\<open>translated_code\<close> normalizes to the empty
  text, the call fails after this one request, without retry: with the
  empty-translation error when \<^verbatim>\<open>translated_code\<close> is not itself the empty string, and with
  the error for a missing \<^verbatim>\<open>translated_code\<close> when it is the empty string.
\<close>

theorem empty_translation_is_a_failure:
  "(\<forall>tx w'. translateCode fuel code sourceLang targetLang preserveComments retryCount w = Some (Inr tx, w') \<longrightarrow> tx \<noteq> [])
   \<and> (\<forall>w1 resp raw.
         health_gate (emit (LogRequest retryCount) w) = (Proceed, w1)
         \<and> length code \<le> MAX_CODE_LENGTH \<and> isLanguagePairSupported sourceLang targetLang
         \<and> shd (post_replies w) = Replied resp \<and> 200 \<le> status resp \<and> status resp < 300
         \<and> translated_code resp = Some raw \<and> normalizeTranslatedCode raw = [] \<longrightarrow>
         (\<exists>w'. translateCode (Suc fuel) code sourceLang targetLang preserveComments retryCount w =
                  Some (Inl (Error (if raw = []
                     then ''Translation failed: Translation failed: Invalid response format from translation service: Missing translated_code''
                     else ''Translation failed: Translation failed: Received empty translation from the server'')), w')
               \<and> posts (trace w') = Suc (posts (trace w)) \<and> sleeps (trace w') = sleeps (trace w)))"
proof -
  have 1: "\<forall>tx w'. translateCode fuel code sourceLang targetLang preserveComments retryCount w = Some (Inr tx, w') \<longrightarrow> tx \<noteq> []"
  proof (intro allI impI)
    fix tx w'
    assume "translateCode fuel code sourceLang targetLang preserveComments retryCount w = Some (Inr tx, w')"
    from translateCode_run [OF this] show "tx \<noteq> []" by simp
  qed
  have 2: "\<forall>w1 resp raw.
         health_gate (emit (LogRequest retryCount) w) = (Proceed, w1)
         \<and> length code \<le> MAX_CODE_LENGTH \<and> isLanguagePairSupported sourceLang targetLang
         \<and> shd (post_replies w) = Replied resp \<and> 200 \<le> status resp \<and> status resp < 300
         \<and> translated_code resp = Some raw \<and> normalizeTranslatedCode raw = [] \<longrightarrow>
         (\<exists>w'. translateCode (Suc fuel) code sourceLang targetLang preserveComments retryCount w =
                  Some (Inl (Error (if raw = []
                     then ''Translation failed: Translation failed: Invalid response format from translation service: Missing translated_code''
                     else ''Translation failed: Translation failed: Received empty translation from the server'')), w')
               \<and> posts (trace w') = Suc (posts (trace w)) \<and> sleeps (trace w') = sleeps (trace w))"
  proof (intro allI impI)
    fix w1 resp raw
    assume h: "health_gate (emit (LogRequest retryCount) w) = (Proceed, w1)
         \<and> length code \<le> MAX_CODE_LENGTH \<and> isLanguagePairSupported sourceLang targetLang
         \<and> shd (post_replies w) = Replied resp \<and> 200 \<le> status resp \<and> status resp < 300
         \<and> translated_code resp = Some raw \<and> normalizeTranslatedCode raw = []"
    then have g: "health_gate (emit (LogRequest retryCount) w) = (Proceed, w1)"
      and l: "length code \<le> MAX_CODE_LENGTH" and s: "isLanguagePairSupported sourceLang targetLang"
      and r: "shd (post_replies w) = Replied resp" and lo: "200 \<le> status resp" and hi: "status resp < 300"
      and tc: "translated_code resp = Some raw" and n: "normalizeTranslatedCode raw = []"
      by simp_all
    from answered_after_gate [OF g l s r lo hi, of fuel preserveComments] obtain w' where
      t: "posts (trace w') = Suc (posts (trace w))" "sleeps (trace w') = sleeps (trace w)"
      and run: "translateCode (Suc fuel) code sourceLang targetLang preserveComments retryCount w =
        Some (if truthy (translated_code resp) then
                (if normalizeTranslatedCode (render (translated_code resp)) = []
                 then Inl (Error ''Translation failed: Translation failed: Received empty translation from the server'')
                 else Inr (normalizeTranslatedCode (render (translated_code resp))))
              else Inl (Error ''Translation failed: Translation failed: Invalid response format from translation service: Missing translated_code''),
              w')"
      by blast
    from tc n have "(if truthy (translated_code resp) then
                (if normalizeTranslatedCode (render (translated_code resp)) = []
                 then Inl (Error ''Translation failed: Translation failed: Received empty translation from the server'')
                 else Inr (normalizeTranslatedCode (render (translated_code resp))))
              else Inl (Error ''Translation failed: Translation failed: Invalid response format from translation service: Missing translated_code''))
       = (Inl (Error (if raw = []
                     then ''Translation failed: Translation failed: Invalid response format from translation service: Missing translated_code''
                     else ''Translation failed: Translation failed: Received empty translation from the server'')) :: exn + string)"
      by (simp add: truthy_def render_def)
    with run have "translateCode (Suc fuel) code sourceLang targetLang preserveComments retryCount w =
                  Some (Inl (Error (if raw = []
                     then ''Translation failed: Translation failed: Invalid response format from translation service: Missing translated_code''
                     else ''Translation failed: Translation failed: Received empty translation from the server'')), w')"
      by (simp only:)
    with t show "\<exists>w'. translateCode (Suc fuel) code sourceLang targetLang preserveComments retryCount w =
                  Some (Inl (Error (if raw = []
                     then ''Translation failed: Translation failed: Invalid response format from translation service: Missing translated_code''
                     else ''Translation failed: Translation failed: Received empty translation from the server'')), w')
               \<and> posts (trace w') = Suc (posts (trace w)) \<and> sleeps (trace w') = sleeps (trace w)"
      by blast
  qed
  from 1 2 show ?thesis by (rule conjI)
qed

theorem empty_translation_is_a_failure_witness:
  "fst (health_gate (emit (LogRequest 1) emptyFenceWorld)) = Proceed
   \<and> length ''print(1)'' \<le> MAX_CODE_LENGTH \<and> isLanguagePairSupported ''python'' ''java''
   \<and> shd (post_replies emptyFenceWorld) = Replied (okResponse ''```\<newline>'')
   \<and> 200 \<le> status (okResponse ''```\<newline>'') \<and> status (okResponse ''```\<newline>'') < 300
   \<and> translated_code (okResponse ''```\<newline>'') = Some ''```\<newline>''
   \<and> normalizeTranslatedCode ''```\<newline>'' = []
   \<and> map_option fst (translateCode (Suc 0) ''print(1)'' ''python'' ''java'' True 1 emptyFenceWorld) =
       Some (Inl (Error ''Translation failed: Translation failed: Received empty translation from the server''))
   \<and> (\<exists>tx w'. translateCode (Suc 0) ''print(1)'' ''python'' ''java'' True 1 warmWorld = Some (Inr tx, w')
         \<and> tx \<noteq> [])"
proof -
  have b: "fst (health_gate (emit (LogRequest 1) emptyFenceWorld)) = Proceed"
    by (simp add: scenario_defs model_defs)
  then obtain w1 where g: "health_gate (emit (LogRequest 1) emptyFenceWorld) = (Proceed, w1)"
    by (metis prod.collapse)
  have c: "length ''print(1)'' \<le> MAX_CODE_LENGTH \<and> isLanguagePairSupported ''python'' ''java''
     \<and> shd (post_replies emptyFenceWorld) = Replied (okResponse ''```\<newline>'')
     \<and> 200 \<le> status (okResponse ''```\<newline>'') \<and> status (okResponse ''```\<newline>'') < 300
     \<and> translated_code (okResponse ''```\<newline>'') = Some ''```\<newline>''
     \<and> normalizeTranslatedCode ''```\<newline>'' = []"
    by (simp add: scenario_defs model_defs)
  from empty_translation_is_a_failure [where w = emptyFenceWorld and retryCount = 1 and fuel = 0
      and code = "''print(1)''" and sourceLang = "''python''" and targetLang = "''java''" and preserveComments = True]
    g c
  obtain w' where "translateCode (Suc 0) ''print(1)'' ''python'' ''java'' True 1 emptyFenceWorld =
     Some (Inl (Error (if ''```\<newline>'' = []
                     then ''Translation failed: Translation failed: Invalid response format from translation service: Missing translated_code''
                     else ''Translation failed: Translation failed: Received empty translation from the server'')), w')"
    by blast
  then have 1: "map_option fst (translateCode (Suc 0) ''print(1)'' ''python'' ''java'' True 1 emptyFenceWorld) =
       Some (Inl (Error ''Translation failed: Translation failed: Received empty translation from the server''))"
    by simp
  have "map_option fst (translateCode (Suc 0) ''print(1)'' ''python'' ''java'' True 1 warmWorld) = Some (Inr ''x'')"
    by (simp add: scenario_defs model_defs)
  then obtain w2 where ok: "translateCode (Suc 0) ''print(1)'' ''python'' ''java'' True 1 warmWorld = Some (Inr ''x'', w2)"
    by (cases "translateCode (Suc 0) ''print(1)'' ''python'' ''java'' True 1 warmWorld") auto
  from empty_translation_is_a_failure [where w = warmWorld and retryCount = 1 and fuel = "Suc 0"
      and code = "''print(1)''" and sourceLang = "''python''" and targetLang = "''java''" and preserveComments = True]
    ok
  have "''x'' \<noteq> []" by blast
  with ok have 2: "\<exists>tx w'. translateCode (Suc 0) ''print(1)'' ''python'' ''java'' True 1 warmWorld = Some (Inr tx, w')
         \<and> tx \<noteq> []"
    by blast
  from b c 1 2 show ?thesis by blast
qed

text \<open>
  C6, the claim as stated fails: the payload \<^verbatim>\<open>""\<close> normalizes to the empty text, and
  the failure is the one for a missing \<^verbatim>\<open>translated_code\<close>, not the empty-translation one.
\<close>

theorem empty_payload_is_reported_as_missing_counterexample:
  "normalizeTranslatedCode [] = []
   \<and> shd (post_replies emptyPayloadWorld) = Replied (okResponse [])
   \<and> outcome (translateCode (Suc 0) ''print(1)'' ''python'' ''java'' True 1 emptyPayloadWorld) =
       Some (Inl (Error ''Translation failed: Translation failed: Invalid response format from translation service: Missing translated_code''),
             [LogRequest 1, TranslatePost defaultEndpoint ''print(1)'' ''python'' ''java'' True])"
  by (simp add: scenario_defs model_defs)

text \<open>
  A 429 answer resolves the request (\<^verbatim>\<open>validateStatus: status < 500\<close>), so it never reaches
  the handler for status 429 in the \<^verbatim>\<open>catch\<close> block: whatever the budget, the call fails after
  this one request.
\<close>

lemma rate_limit_answer_is_final:
  assumes "health_gate (emit (LogRequest rc) w) = (Proceed, w1)" and "length c \<le> MAX_CODE_LENGTH"
    and "isLanguagePairSupported s t" and "shd (post_replies w) = Replied resp" and "status resp = 429"
  shows "\<exists>m w'. translateCode (Suc fuel) c s t p rc w = Some (Inl (Error m), w')
     \<and> posts (trace w') = Suc (posts (trace w)) \<and> sleeps (trace w') = sleeps (trace w)"
proof -
  let ?w2 = "emit (TranslatePost (apiEndpoint w1) c s t p) (w1\<lparr>post_replies := stl (post_replies w1)\<rparr>)"
  from health_gate_frame [OF assms(1)] have q: "quiet (emit (LogRequest rc) w) w1" by simp
  from trace_log_frame [OF q] have f: "posts (trace w1) = posts (trace w)" "sleeps (trace w1) = sleeps (trace w)"
    "post_replies w1 = post_replies w"
    by simp_all
  from f have tr: "posts (trace ?w2) = Suc (posts (trace w))" "sleeps (trace ?w2) = sleeps (trace w)"
    by (simp_all add: emit_def)
  from f(3) assms(4) have r: "shd (post_replies w1) = Replied resp" by simp
  from r assms(5) have "\<exists>m. request_try c s t p w1 = (Inl (Error m), ?w2)"
    by (simp add: request_try_def axios_post_def settle_def Let_def)
  then obtain m where "request_try c s t p w1 = (Inl (Error m), ?w2)" by blast
  with assms(1,2,3) have "translateCode (Suc fuel) c s t p rc w =
      Some (Inl (Error (''Translation failed: Translation failed: '' @ m)), ?w2)"
    by (simp add: translateCode_body_def translate_try_def translate_catch_Error request_catch_def)
  with tr show ?thesis by blast
qed

text \<open>
  The handler for status 429 in the \<^verbatim>\<open>catch\<close> block, had it received the 429 answer as a
  rejection, would wait the 2000 ms of the header and start the next activation with
  the budget decremented.
\<close>

lemma retryAfter_example: "retryAfter tooManyRequests = Ms 2000"
  by (simp add: retryAfter_def tooManyRequests_def or_else_def truthy_def render_def parseInt10_def
      isWhiteSpace_def isDigit_def digitsValue_def Let_def)

lemma rate_limit_handler_example:
  "request_catch 1 (AxiosError \<lparr>ax_code = Some ''ERR_BAD_REQUEST'', ax_message = ''Request failed with status code 429'',
       ax_response = Some tooManyRequests, ax_request = True\<rparr>) w
     = (Recurse 0, setTimeout (Ms 2000) w)"
  by (simp add: request_catch_def retryAfter_example Let_def) (simp add: tooManyRequests_def)

text \<open>
  C4, at the failing input: the service always answers 429 with \<^verbatim>\<open>retry-after: 2\<close> and
  the budget is 1. The call sends one request, waits no delay, makes no retry and
  fails with the generic error of a non-2xx answer, not with the rate-limit error.
\<close>

theorem rate_limit_answer_is_not_retried:
  "shd (post_replies rateLimitedWorld) = Replied tooManyRequests
   \<and> status tooManyRequests = 429 \<and> retry_after tooManyRequests = Some ''2''
   \<and> outcome (translateCode (Suc (Suc 0)) ''print(1)'' ''python'' ''java'' True 1 rateLimitedWorld) =
       Some (Inl (Error ''Translation failed: Translation failed: Translation failed: Too Many Requests''),
             [LogRequest 1, TranslatePost defaultEndpoint ''print(1)'' ''python'' ''java'' True])"
  by (simp add: scenario_defs model_defs)

text \<open>
  Whatever the outer \<^verbatim>\<open>try\<close> block throws is a plain \<^verbatim>\<open>Error\<close>: the branches of the outer
  \<^verbatim>\<open>catch\<close> block for an \<^verbatim>\<open>AxiosError\<close> never run, and no run reads the random source.
\<close>

lemma translate_try_raises_plain_errors:
  assumes "translate_try c s t p rc w = (Raise e, w')"
  shows "\<exists>m. e = Error m"
  using translate_try_cases [OF assms] by auto

lemma random_source_is_never_read:
  "translateCode fuel c s t p rc w = Some (res, w') \<Longrightarrow> randoms w' = randoms w"
  by (drule translateCode_run) simp

text \<open>
  The delay before an automatic retry is one second, or the \<^verbatim>\<open>retry-after\<close> delay when a
  rejection carries an answer with status 429; it does not depend on the budget.
\<close>

lemma retry_delay_is_a_second_or_retry_after:
  assumes "translateCode_body c s t p rc w = (Recurse n, w')" and "n \<noteq> rc"
  shows "\<exists>d. sleeps (trace w') = sleeps (trace w) @ [d] \<and> (d = Ms 1000 \<or> (\<exists>resp. d = retryAfter resp))"
  using translateCode_body_cases [OF assms(1)] assms(2) by auto

text \<open>
  C5, at the failing inputs. The first request times out (\<^verbatim>\<open>ECONNABORTED\<close>), the second
  is answered, the budget is 1 and \<^verbatim>\<open>Math.random()\<close> would give 0.5: the call waits exactly
  1000 ms before the retry and does not read the random source, where the schedule of
  the claim gives 1000 + 500 ms. Every request times out and the budget is 2: both
  delays are 1000 ms, the second is not longer than the first, and the call ends with
  the timed-out error. The first request is aborted (\<^verbatim>\<open>ERR_CANCELED\<close>) and the budget is 1:
  the call fails at once, with no delay and no retry.
\<close>

theorem timeout_retry_has_no_backoff_and_abort_has_no_retry:
  "shd (post_replies timeoutOnceWorld) = Threw timeoutError
   \<and> shd (randoms timeoutOnceWorld) = 1 / 2
   \<and> outcome (translateCode (Suc (Suc 0)) ''print(1)'' ''python'' ''java'' True 1 timeoutOnceWorld) =
       Some (Inr ''x'',
             [LogRequest 1, TranslatePost defaultEndpoint ''print(1)'' ''python'' ''java'' True, Sleep (Ms 1000),
              LogRequest 0, TranslatePost defaultEndpoint ''print(1)'' ''python'' ''java'' True])
   \<and> map_option (\<lambda>(res, w). randoms w) (translateCode (Suc (Suc 0)) ''print(1)'' ''python'' ''java'' True 1 timeoutOnceWorld) =
       Some (randoms timeoutOnceWorld)
   \<and> outcome (translateCode (Suc (Suc (Suc 0))) ''print(1)'' ''python'' ''java'' True 2 alwaysTimeoutWorld) =
       Some (Inl (Error ''Translation failed: Translation service is currently unavailable. The request timed out.''),
             [LogRequest 2, TranslatePost defaultEndpoint ''print(1)'' ''python'' ''java'' True, Sleep (Ms 1000),
              LogRequest 1, TranslatePost defaultEndpoint ''print(1)'' ''python'' ''java'' True, Sleep (Ms 1000),
              LogRequest 0, TranslatePost defaultEndpoint ''print(1)'' ''python'' ''java'' True])
   \<and> shd (post_replies abortedOnceWorld) = Threw canceledError
   \<and> outcome (translateCode (Suc (Suc 0)) ''print(1)'' ''python'' ''java'' True 1 abortedOnceWorld) =
       Some (Inl (Error ''Translation failed: No response received from the translation service. Please check your connection.''),
             [LogRequest 1, TranslatePost defaultEndpoint ''print(1)'' ''python'' ''java'' True])"
  by (simp add: scenario_defs model_defs)

text \<open>
  The outer handler, had it received the same timeout, would wait the backoff with
  jitter, 1500 ms; \<open>translate_try_raises_plain_errors\<close> says that it never receives one.
\<close>

lemma backoff_handler_example:
  "translate_catch 1 timeoutError timeoutOnceWorld =
     (Recurse 0, setTimeout (Ms 1500) (timeoutOnceWorld\<lparr>randoms := stl (randoms timeoutOnceWorld)\<rparr>))"
  by (simp add: translate_catch_def timeoutError_def Math_random_def maxRetries_def Let_def scenario_defs)


end
